theory Spec2Isabelle
  imports Complex_Main
begin

section \<open>Common conventions\<close>

text \<open>
  Python exceptions are values of the type \<open>error\<close>; a function that can raise returns
  \<open>error + 'a\<close> with \<open>Inl\<close> for the exception.
\<close>

datatype error =
    AssertionError
  | ShapeValueError      \<comment> \<open>"Final video after transformation is not correct shape"\<close>
  | CropValueError       \<comment> \<open>"Cannot extend crop into correct shape"\<close>
  | LibValueError        \<comment> \<open>a ValueError raised inside numpy or skimage\<close>
  | IndexError
  | ZeroDivisionError
  | OverflowError        \<comment> \<open>\<open>int()\<close> or \<open>math.ceil()\<close> of an infinity (for a NaN, a ValueError)\<close>
  | UnboundLocalError
  | AttributeError
  | KeyError
  | RuntimeError

section \<open>Floating-point arithmetic\<close>

text \<open>
  The code computes frame rates, lengths and running sums in 64-bit floating point. The
  operations it uses are a parameter of the model, over a type \<open>'r\<close> of float values:
  conversion from an integer, the four arithmetic operations, the comparisons \<open>==\<close> and
  \<open><\<close>, and the conversions \<open>int(x)\<close> and \<open>math.ceil(x)\<close>, which are \<open>None\<close>
  where Python raises (on an infinity or a NaN). Every definition below that the code computes in floating point goes
  through these operations, so a theorem about it holds for whatever they compute.
\<close>

record 'r floatops =
  f_of_int :: "int \<Rightarrow> 'r"
  f_add :: "'r \<Rightarrow> 'r \<Rightarrow> 'r"
  f_sub :: "'r \<Rightarrow> 'r \<Rightarrow> 'r"
  f_mul :: "'r \<Rightarrow> 'r \<Rightarrow> 'r"
  f_div :: "'r \<Rightarrow> 'r \<Rightarrow> 'r"
  f_eq :: "'r \<Rightarrow> 'r \<Rightarrow> bool"
  f_less :: "'r \<Rightarrow> 'r \<Rightarrow> bool"
  f_int :: "'r \<Rightarrow> int option"
  f_ceil :: "'r \<Rightarrow> int option"

text \<open>
  A failed conversion to an integer is an exception. Python's division raises
  ZeroDivisionError on a zero divisor before it divides.
\<close>

definition to_int :: "int option \<Rightarrow> error + int" where
  "to_int r = (case r of None \<Rightarrow> Inl OverflowError | Some n \<Rightarrow> Inr n)"

definition py_div :: "'r floatops \<Rightarrow> 'r \<Rightarrow> 'r \<Rightarrow> error + 'r" where
  "py_div F x y = (if f_eq F y (f_of_int F 0) then Inl ZeroDivisionError else Inr (f_div F x y))"

subsection \<open>IEEE 754 binary64 on the finite values\<close>

text \<open>
  For evaluation, the finite binary64 values are the rationals they denote, and an
  operation is the exact operation followed by rounding to the nearest value with a 53-bit
  significand, ties to even (\<open>fl64\<close>), with the subnormal spacing below 2 to the power -1022.
  Overflow to an infinity and NaN are not part of this instance; it is used at inputs where
  they do not arise.
\<close>

function bit_length :: "int \<Rightarrow> int" where
  "bit_length n = (if n \<le> 0 then 0 else 1 + bit_length (n div 2))"
  by pat_completeness auto
termination
  by (relation "measure nat") auto

declare bit_length.simps [simp del]

definition pow2 :: "int \<Rightarrow> rat" where
  "pow2 k = (if k \<ge> 0 then 2 ^ nat k else 1 / 2 ^ nat (- k))"

text \<open>\<open>binade x\<close> is the exponent \<open>e\<close> of the power of two at or below \<open>\<bar>x\<bar>\<close>, for \<open>x\<close> not 0.\<close>

definition binade :: "rat \<Rightarrow> int" where
  "binade x =
     (let (p, q) = quotient_of \<bar>x\<bar>;
          k = bit_length p - bit_length q
      in if pow2 k \<le> \<bar>x\<bar> then k else k - 1)"

definition round_half_even :: "rat \<Rightarrow> int" where
  "round_half_even n =
     (let f = \<lfloor>n\<rfloor>; d = n - of_int f
      in if d < 1 / 2 then f else if d > 1 / 2 then f + 1 else if even f then f else f + 1)"

definition fl64 :: "rat \<Rightarrow> rat" where
  "fl64 x =
     (if x = 0 then 0
      else let u = pow2 (max (binade x) (- 1022) - 52)
           in of_int (round_half_even (x / u)) * u)"

text \<open>Python's \<open>int()\<close> on a finite float truncates towards zero.\<close>

definition py_int :: "rat \<Rightarrow> int" where
  "py_int r = (if 0 \<le> r then \<lfloor>r\<rfloor> else \<lceil>r\<rceil>)"

definition binary64 :: "rat floatops" where
  "binary64 =
     \<lparr> f_of_int = (\<lambda>n. fl64 (of_int n)),
       f_add = (\<lambda>x y. fl64 (x + y)),
       f_sub = (\<lambda>x y. fl64 (x - y)),
       f_mul = (\<lambda>x y. fl64 (x * y)),
       f_div = (\<lambda>x y. fl64 (x / y)),
       f_eq = (\<lambda>x y. x = y),
       f_less = (\<lambda>x y. x < y),
       f_int = (\<lambda>x. Some (py_int x)),
       f_ceil = (\<lambda>x. Some \<lceil>x\<rceil>) \<rparr>"

section \<open>utils/ddp\_utils.py: AverageMeterDDP\<close>

text \<open>
  The process group, when one is active, is its world size and the effect of
  \<open>dist.all_reduce\<close> on a value vector; \<open>None\<close> is "no active process group"
  (\<open>is_dist_avail_and_initialized()\<close> returns False). The meter holds float64 arrays;
  the values passed to \<open>update\<close> are floats.
\<close>

record 'r dist_env =
  world_size :: int
  all_reduce :: "'r list \<Rightarrow> 'r list"

definition is_dist_avail_and_initialized :: "'r dist_env option \<Rightarrow> bool" where
  "is_dist_avail_and_initialized d = (d \<noteq> None)"

record 'r AverageMeterDDP =
  n_classes :: nat
  val :: "'r list"
  avg :: "'r list"
  sumv :: "'r list"
  count :: int
  step :: int

definition AverageMeterDDP_init :: "'r floatops \<Rightarrow> 'r dist_env option \<Rightarrow> nat \<Rightarrow> 'r AverageMeterDDP" where
  "AverageMeterDDP_init F d n =
     \<lparr> n_classes = n, val = replicate n (f_of_int F 0), avg = replicate n (f_of_int F 0),
       sumv = replicate n (f_of_int F 0), count = 0,
       step = (case d of Some e \<Rightarrow> world_size e | None \<Rightarrow> 1) \<rparr>"

definition reset :: "'r floatops \<Rightarrow> 'r AverageMeterDDP \<Rightarrow> 'r AverageMeterDDP" where
  "reset F m = m\<lparr> val := replicate (n_classes m) (f_of_int F 0),
                 avg := replicate (n_classes m) (f_of_int F 0),
                 sumv := replicate (n_classes m) (f_of_int F 0), count := 0 \<rparr>"

text \<open>
  The body of \<open>for i in range(0, self.n_classes)\<close>, over the list of indices still to
  visit. Reading \<open>val[i]\<close> past the end of the argument raises IndexError. The sum is
  a float addition and the average a float division by the counter.
\<close>

fun update_slots ::
  "'r floatops \<Rightarrow> 'r list \<Rightarrow> nat list \<Rightarrow> 'r AverageMeterDDP \<Rightarrow> error + 'r AverageMeterDDP" where
  "update_slots F v [] m = Inr m"
| "update_slots F v (i # js) m =
     (if i < length v \<and> i < length (val m) \<and> i < length (sumv m) \<and> i < length (avg m)
      then update_slots F v js
             (m\<lparr> val := (val m)[i := v ! i],
                 sumv := (sumv m)[i := f_add F (sumv m ! i) (v ! i)],
                 avg := (avg m)[i := f_div F (f_add F (sumv m ! i) (v ! i))
                                          (f_of_int F (count m))] \<rparr>)
      else Inl IndexError)"

definition update ::
  "'r floatops \<Rightarrow> 'r dist_env option \<Rightarrow> 'r AverageMeterDDP \<Rightarrow> 'r list \<Rightarrow> error + 'r AverageMeterDDP" where
  "update F d m v =
     (let v' = (case d of Some e \<Rightarrow> all_reduce e v | None \<Rightarrow> v);
          m' = m\<lparr> count := count m + step m \<rparr>
      in update_slots F v' [0..<n_classes m'] m')"

text \<open>A sequence of \<open>update\<close> calls on one meter; the first exception ends it.\<close>

fun updates ::
  "'r floatops \<Rightarrow> 'r dist_env option \<Rightarrow> 'r AverageMeterDDP \<Rightarrow> 'r list list
     \<Rightarrow> error + 'r AverageMeterDDP" where
  "updates F d m [] = Inr m"
| "updates F d m (v # vs) =
     (case update F d m v of Inl e \<Rightarrow> Inl e | Inr m' \<Rightarrow> updates F d m' vs)"

text \<open>
  The running sum of slot \<open>i\<close> as the code accumulates it: float additions in call order,
  from the zero of \<open>np.zeros\<close>.
\<close>

definition float_sum :: "'r floatops \<Rightarrow> 'r list list \<Rightarrow> nat \<Rightarrow> 'r" where
  "float_sum F vs i = foldl (f_add F) (f_of_int F 0) (map (\<lambda>v. v ! i) vs)"

section \<open>utils/ddp\_utils.py: DistributedWeightedSampler\<close>

text \<open>
  The parent class \<open>torch.utils.data.DistributedSampler\<close> is library code: the outcome
  of its constructor (an exception, or the sampler state with its per-process sample
  count) is a parameter of the model.
\<close>

record DistributedSampler =
  num_samples :: nat
  epoch :: nat

record DistributedWeightedSampler = DistributedSampler +
  replacement :: bool
  weights :: "rat list"

definition DistributedWeightedSampler_init ::
  "error + DistributedSampler \<Rightarrow> nat \<Rightarrow> bool \<Rightarrow> error + DistributedWeightedSampler" where
  "DistributedWeightedSampler_init super_init len_dataset repl =
     (case super_init of
        Inl e \<Rightarrow> Inl e
      | Inr b \<Rightarrow>
          if \<not> repl then Inl AssertionError
          else Inr \<lparr> num_samples = num_samples b, epoch = epoch b,
                     replacement = repl, weights = replicate len_dataset 1 \<rparr>)"

definition DistributedWeightedSampler_len :: "DistributedWeightedSampler \<Rightarrow> nat" where
  "DistributedWeightedSampler_len s = num_samples s"

section \<open>models/multi\_stream.py\<close>

text \<open>
  Tensors are modelled by their shapes. A backbone network is library code: a function
  from the shape of its input to the shape of its output, or an exception.
\<close>

type_synonym tshape = "nat list"
type_synonym backbone = "tshape \<Rightarrow> error + tshape"

text \<open>
  \<open>MultiStream.__init__\<close> stores the keyword arguments in \<open>endpoints\<close> and registers
  them as sub-modules, then adds the linear layer under the name \<open>Linear_layer\<close>. The
  names \<open>model_name\<close> and \<open>fc_name\<close> are local variables of the constructor: no
  attribute of these names is assigned. The linear layer is recorded by its input width.
\<close>

datatype submodule = Backbone backbone | Linear nat

record MultiStream =
  ms_endpoints :: "(string \<times> submodule) list"
  ms_num_models :: nat

definition dict_set :: "('k \<times> 'v) list \<Rightarrow> 'k \<Rightarrow> 'v \<Rightarrow> ('k \<times> 'v) list" where
  "dict_set d k v = (if k \<in> fst ` set d then map (\<lambda>(k', v'). if k' = k then (k', v) else (k', v')) d
                     else d @ [(k, v)])"

definition MultiStream_init :: "(string \<times> backbone) list \<Rightarrow> MultiStream" where
  "MultiStream_init kwargs =
     \<lparr> ms_endpoints =
         dict_set (foldl (\<lambda>d (k, m). dict_set d k (Backbone m)) [] kwargs)
                  ''Linear_layer'' (Linear (length kwargs)),
       ms_num_models = length kwargs \<rparr>"

text \<open>
  \<open>self.model_name\<close> in \<open>forward\<close>: the instance has no such attribute, so the lookup
  falls through to the registered sub-modules; it raises AttributeError unless a backbone
  was registered under the name \<open>model_name\<close>, and then the module found is not a key of
  \<open>_modules\<close> (KeyError). With no input at all the loop body is not run and
  \<open>torch.stack\<close> of the empty list raises RuntimeError. The statements after the loop
  are never reached.
\<close>

definition MultiStream_forward :: "MultiStream \<Rightarrow> tshape list \<Rightarrow> error + tshape" where
  "MultiStream_forward self x =
     (if length x \<noteq> ms_num_models self then Inl AssertionError
      else case zip x (map fst (ms_endpoints self)) of
             [] \<Rightarrow> Inl RuntimeError
           | _ # _ \<Rightarrow> (if ''model_name'' \<in> fst ` set (ms_endpoints self) then Inl KeyError
                       else Inl AttributeError))"

record MultiStreamShared =
  mss_model_img :: backbone
  mss_model_flow :: backbone
  mss_num_models :: nat

definition MultiStreamShared_init :: "backbone \<Rightarrow> backbone \<Rightarrow> nat \<Rightarrow> MultiStreamShared" where
  "MultiStreamShared_init model_img model_flow num_m =
     \<lparr> mss_model_img = model_img, mss_model_flow = model_flow, mss_num_models = num_m \<rparr>"

text \<open>The loop \<open>for i, inp in enumerate(x)\<close>, started at index \<open>i\<close>.\<close>

fun run_streams :: "MultiStreamShared \<Rightarrow> nat \<Rightarrow> tshape list \<Rightarrow> error + tshape list" where
  "run_streams self i [] = Inr []"
| "run_streams self i (inp # x) =
     (case (if i mod 2 = 0 then mss_model_img self inp else mss_model_flow self inp) of
        Inl e \<Rightarrow> Inl e
      | Inr y \<Rightarrow> (case run_streams self (i + 1) x of Inl e \<Rightarrow> Inl e | Inr ys \<Rightarrow> Inr (y # ys)))"

text \<open>Shapes under \<open>torch.stack(y, dim=1)\<close>, \<open>squeeze()\<close> and \<open>nn.Linear(n, 1)\<close>.\<close>

definition torch_stack1 :: "tshape list \<Rightarrow> error + tshape" where
  "torch_stack1 ys =
     (case ys of
        [] \<Rightarrow> Inl RuntimeError
      | y # rest \<Rightarrow>
          if \<exists>z \<in> set rest. z \<noteq> y then Inl RuntimeError
          else if y = [] then Inl IndexError
          else Inr (hd y # length ys # tl y))"

definition squeeze :: "tshape \<Rightarrow> tshape" where
  "squeeze s = filter (\<lambda>d. d \<noteq> 1) s"

definition linear_apply :: "nat \<Rightarrow> tshape \<Rightarrow> error + tshape" where
  "linear_apply n s =
     (if s = [] then Inl RuntimeError
      else if last s \<noteq> n then Inl RuntimeError
      else Inr (butlast s @ [1]))"

definition MultiStreamShared_forward :: "MultiStreamShared \<Rightarrow> tshape list \<Rightarrow> error + tshape" where
  "MultiStreamShared_forward self x =
     (if length x \<noteq> mss_num_models self then Inl AssertionError
      else case run_streams self 0 x of
             Inl e \<Rightarrow> Inl e
           | Inr ys \<Rightarrow> (case torch_stack1 ys of
                          Inl e \<Rightarrow> Inl e
                        | Inr s \<Rightarrow> linear_apply (mss_num_models self) (squeeze s)))"

section \<open>data/data\_augmentations.py: configuration, arrays and library functions\<close>

text \<open>
  The transform settings read by the size transforms. \<open>black_val\<close> is the derived
  attribute set by the constructor of \<open>DataAugmentations\<close>.
\<close>

record transforms =
  normalize_input :: bool
  grayscale :: bool
  rwave_data_only :: bool
  rescale_fps :: bool
  rescale_fphb :: bool
  resize_frames :: bool
  crop_sides :: bool
  crop_length :: bool
  loop_length :: bool
  pad_length :: bool
  target_fps :: int
  target_fphb :: int
  target_length :: int
  target_height :: int
  target_width :: int

definition black_val :: "transforms \<Rightarrow> rat" where
  "black_val cfg = (if normalize_input cfg then - 1 else 0)"

definition white_val :: "transforms \<Rightarrow> rat" where
  "white_val cfg = (if normalize_input cfg then 1 else 255)"

text \<open>
  A video is the list of its frames along axis 0 together with the remaining shape:
  height, width and, for an array of rank 4, the channel count. \<open>channels = None\<close> is
  an array of rank 3, of shape (L, H, W); it arises from \<open>t_grayscale_mean\<close> only, the
  input of every operation being documented as (L, H, W, C). The contents of a frame are
  abstract (the type \<open>'f\<close>).
\<close>

record 'f video =
  frames :: "'f list"
  height :: nat
  width :: nat
  channels :: "nat option"

definition shape :: "'f video \<Rightarrow> nat list" where
  "shape img = [length (frames img), height img, width img]
               @ (case channels img of None \<Rightarrow> [] | Some c \<Rightarrow> [c])"

text \<open>
  What numpy and skimage compute inside a frame is a parameter of the model:
  the channel mean cast to 8 bits, the cast to 8 bits, the frame at a given index of an
  interpolated resize (and whether skimage rejects the requested size), and the frame that
  \<open>np.pad\<close> appends for a constant value.
\<close>

record 'f numlib =
  average_u8 :: "'f \<Rightarrow> 'f"
  astype_u8 :: "'f \<Rightarrow> 'f"
  resize_fails :: "nat list \<Rightarrow> int \<Rightarrow> int \<Rightarrow> int \<Rightarrow> bool"
  resize_frame :: "rat \<Rightarrow> 'f video \<Rightarrow> nat \<Rightarrow> nat \<Rightarrow> nat \<Rightarrow> nat \<Rightarrow> 'f"
  pad_frame :: "rat \<Rightarrow> 'f video \<Rightarrow> 'f"

text \<open>
  The slice \<open>xs[a:b]\<close>: a negative bound counts from the end, both bounds are clamped
  to the sequence, and an empty range gives the empty sequence.
\<close>

definition slice_bound :: "int \<Rightarrow> int \<Rightarrow> int" where
  "slice_bound n i = (if i < 0 then max (i + n) 0 else min i n)"

definition py_slice :: "'a list \<Rightarrow> int \<Rightarrow> int \<Rightarrow> 'a list" where
  "py_slice xs a b =
     (let n = int (length xs); s = slice_bound n a; e = slice_bound n b
      in take (nat (e - s)) (drop (nat s) xs))"

section \<open>data/data\_augmentations.py: size transforms\<close>

definition t_grayscale_mean :: "'f numlib \<Rightarrow> 'f video \<Rightarrow> 'f video" where
  "t_grayscale_mean lib img =
     img\<lparr> frames := map (average_u8 lib) (frames img), channels := None \<rparr>"

definition t_resize ::
  "'f numlib \<Rightarrow> transforms \<Rightarrow> 'f video \<Rightarrow> int \<Rightarrow> int \<Rightarrow> int \<Rightarrow> error + 'f video" where
  "t_resize lib cfg img new_length new_height new_width =
     (if new_length < 0 \<or> new_height < 0 \<or> new_width < 0
         \<or> resize_fails lib (shape img) new_length new_height new_width
      then Inl LibValueError
      else Inr \<lparr> frames = map (resize_frame lib (black_val cfg) img
                                 (nat new_length) (nat new_height) (nat new_width))
                               [0..<nat new_length],
                 height = nat new_height, width = nat new_width, channels = channels img \<rparr>)"

text \<open>
  Frame rate, heart rate and r-wave timestamps are Python floats (values of \<open>'r\<close>);
  integers of the configuration and array lengths are converted where they meet a float.
\<close>

definition calc_fphb :: "'r floatops \<Rightarrow> 'r \<Rightarrow> 'r \<Rightarrow> error + 'r" where
  "calc_fphb F hr fps =
     (let hbs = f_div F hr (f_of_int F 60) in py_div F fps hbs)"

definition calc_rwave_fphb :: "'r floatops \<Rightarrow> 'r \<Rightarrow> 'r \<Rightarrow> error + 'r" where
  "calc_rwave_fphb F rwave_diff fps =
     (case py_div F (f_of_int F 1) rwave_diff of
        Inl e \<Rightarrow> Inl e
      | Inr hbs \<Rightarrow> py_div F fps hbs)"

definition calc_rwave_data :: "'r floatops \<Rightarrow> 'r list \<Rightarrow> 'r \<times> (nat \<times> nat)" where
  "calc_rwave_data F rwaves =
     fold (\<lambda>i (max_diff, max_diff_indexes).
             if i \<noteq> 0 then
               (let diff = f_div F (f_sub F (rwaves ! i) (rwaves ! (i - 1))) (f_of_int F 1000)
                in if f_less F max_diff diff then (diff, (i - 1, i))
                   else (max_diff, max_diff_indexes))
             else (max_diff, max_diff_indexes))
          [0..<length rwaves] (f_of_int F 0, (0, 0))"

definition t_pad_length :: "'f numlib \<Rightarrow> transforms \<Rightarrow> 'f video \<Rightarrow> error + 'f video" where
  "t_pad_length lib cfg img =
     (let diff = target_length cfg - int (length (frames img)) in
      if diff > 0 then
        (case channels img of
           None \<Rightarrow> Inl LibValueError
         | Some c \<Rightarrow> Inr (img\<lparr> frames := frames img
                                   @ replicate (nat diff) (pad_frame lib (black_val cfg) img) \<rparr>))
      else Inr img)"

text \<open>
  The loop of \<open>t_loop_length\<close>. It does not end when the original sequence is empty and
  the target length is positive, so it is a partial function: \<open>None\<close> is "does not return".
\<close>

partial_function (option) loop_frames :: "'f list \<Rightarrow> int \<Rightarrow> 'f list \<Rightarrow> 'f list option" where
  "loop_frames org_img tlen img =
     (if int (length img) < tlen then
        (if int (length org_img) \<le> tlen - int (length img)
         then loop_frames org_img tlen (img @ org_img)
         else loop_frames org_img tlen (img @ py_slice org_img 0 (tlen - int (length img))))
      else Some img)"

declare loop_frames.simps [code]

definition t_loop_length :: "'f numlib \<Rightarrow> transforms \<Rightarrow> 'f video \<Rightarrow> 'f video option" where
  "t_loop_length lib cfg img =
     (case loop_frames (frames img) (target_length cfg) (frames img) of
        None \<Rightarrow> None
      | Some fs \<Rightarrow> Some (img\<lparr> frames := map (astype_u8 lib) fs \<rparr>))"

text \<open>
  \<open>skimage.util.crop\<close> with \<open>crop_width = ((0, diff), (0, 0), (0, 0), (0, 0))\<close> takes
  the slice \<open>[0 : shape[0] - diff]\<close> of axis 0 and all of the other axes; it raises
  ValueError when the array does not have four axes.
\<close>

definition t_crop :: "'f numlib \<Rightarrow> transforms \<Rightarrow> 'f video \<Rightarrow> error + 'f video" where
  "t_crop lib cfg img =
     (let len = int (length (frames img));
          diff = (if crop_length cfg \<and> len > target_length cfg
                  then len - target_length cfg else 0)
      in case channels img of
           None \<Rightarrow> Inl LibValueError
         | Some c \<Rightarrow> Inr (img\<lparr> frames := map (astype_u8 lib) (py_slice (frames img) 0 (len - diff)) \<rparr>))"

text \<open>
  The one-frame correction of \<open>t_crop_rwave\<close>, on the window \<open>(start_frame, end_frame)\<close>
  and the number of frames of the video.
\<close>

definition rwave_window :: "int \<Rightarrow> int \<Rightarrow> int \<Rightarrow> int \<Rightarrow> error + (int \<times> int)" where
  "rwave_window len fphb start_frame0 end_frame0 =
     (let (start_frame, end_frame) =
            (if end_frame0 > len then (start_frame0 - 1, end_frame0 - 1)
             else (start_frame0, end_frame0))
      in if end_frame - start_frame < fphb then
           (if end_frame < len then Inr (start_frame, end_frame + 1)
            else if start_frame > 0 then Inr (start_frame - 1, end_frame)
            else Inl CropValueError)
         else if end_frame - start_frame > fphb then
           (if start_frame < end_frame - 1 then Inr (start_frame + 1, end_frame)
            else if end_frame > start_frame + 1 then Inr (start_frame, end_frame - 1)
            else Inl CropValueError)
         else Inr (start_frame, end_frame))"

text \<open>\<open>int((rwaves[i] / 1000) * fps)\<close>: a float division, a float product, a truncation.\<close>

definition rwave_frame :: "'r floatops \<Rightarrow> 'r \<Rightarrow> 'r \<Rightarrow> error + int" where
  "rwave_frame F rwave fps = to_int (f_int F (f_mul F (f_div F rwave (f_of_int F 1000)) fps))"

definition t_crop_rwave ::
  "'r floatops \<Rightarrow> transforms \<Rightarrow> 'f video \<Rightarrow> 'r list \<Rightarrow> nat \<times> nat \<Rightarrow> 'r \<Rightarrow> error + 'f video" where
  "t_crop_rwave F cfg video rwaves rwave_indexes fps =
     (if int (length (frames video)) = target_fphb cfg then Inr video
      else if \<not> fst rwave_indexes < length rwaves then Inl IndexError
      else
        case rwave_frame F (rwaves ! fst rwave_indexes) fps of
          Inl e \<Rightarrow> Inl e
        | Inr start_frame \<Rightarrow>
            if \<not> snd rwave_indexes < length rwaves then Inl IndexError
            else
              (case rwave_frame F (rwaves ! snd rwave_indexes) fps of
                 Inl e \<Rightarrow> Inl e
               | Inr end_frame \<Rightarrow>
                   (case rwave_window (int (length (frames video))) (target_fphb cfg)
                           start_frame end_frame of
                      Inl e \<Rightarrow> Inl e
                    | Inr (s, e) \<Rightarrow> Inr (video\<lparr> frames := py_slice (frames video) s e \<rparr>))))"

text \<open>
  \<open>transform_size\<close>, lines 129 to 154: the new length, by frame rate or by frames per
  heartbeat, and the resize. The second component is the local variable \<open>curr_fphb\<close>,
  \<open>None\<close> while it is unassigned.
\<close>

definition new_length_of ::
  "'r floatops \<Rightarrow> transforms \<Rightarrow> nat \<Rightarrow> 'r \<Rightarrow> 'r \<Rightarrow> ('r \<times> (nat \<times> nat)) option
     \<Rightarrow> error + (int \<times> 'r option)" where
  "new_length_of F cfg len fps hr rw =
     (if rescale_fps cfg \<and> \<not> f_eq F (f_of_int F (target_fps cfg)) fps then
        (case py_div F (f_of_int F (target_fps cfg)) fps of
           Inl e \<Rightarrow> Inl e
         | Inr q \<Rightarrow>
             (case to_int (f_int F (f_mul F (f_of_int F (int len)) q)) of
                Inl e \<Rightarrow> Inl e
              | Inr new_length \<Rightarrow> Inr (new_length, None)))
      else if rescale_fphb cfg then
        (case (case rw of Some (rwave_diff, rwave_indexes) \<Rightarrow> calc_rwave_fphb F rwave_diff fps
                        | None \<Rightarrow> calc_fphb F hr fps) of
           Inl e \<Rightarrow> Inl e
         | Inr curr_fphb \<Rightarrow>
             (case py_div F (f_of_int F (target_fphb cfg)) curr_fphb of
                Inl e \<Rightarrow> Inl e
              | Inr q \<Rightarrow>
                  (case to_int (f_ceil F (f_mul F (f_of_int F (int len)) q)) of
                     Inl e \<Rightarrow> Inl e
                   | Inr new_length \<Rightarrow>
                       Inr (if new_length < target_fphb cfg then target_fphb cfg else new_length,
                            Some curr_fphb))))
      else Inr (int len, None))"

definition rescale_stage ::
  "'f numlib \<Rightarrow> 'r floatops \<Rightarrow> transforms \<Rightarrow> 'f video \<Rightarrow> 'r \<Rightarrow> 'r
     \<Rightarrow> ('r \<times> (nat \<times> nat)) option \<Rightarrow> error + ('f video \<times> 'r option)" where
  "rescale_stage lib F cfg img fps hr rw =
     (if rescale_fps cfg \<or> resize_frames cfg \<or> rescale_fphb cfg then
        (if rescale_fps cfg \<and> rescale_fphb cfg then Inl AssertionError
         else case new_length_of F cfg (length (frames img)) fps hr rw of
                Inl e \<Rightarrow> Inl e
              | Inr (new_length, curr_fphb) \<Rightarrow>
                  let (new_height, new_width) =
                        (if resize_frames cfg \<and> \<not> (int (height img) = target_height cfg
                                                  \<and> int (width img) = target_width cfg)
                         then (target_height cfg, target_width cfg)
                         else (int (height img), int (width img)))
                  in (case t_resize lib cfg img new_length new_height new_width of
                        Inl e \<Rightarrow> Inl e
                      | Inr img' \<Rightarrow> Inr (img', curr_fphb)))
      else Inr (img, None))"

text \<open>
  Lines 161 and 162: \<open>t_crop\<close> is called when \<open>crop_sides\<close> or \<open>crop_length\<close> is
  enabled.
\<close>

definition crop_stage :: "'f numlib \<Rightarrow> transforms \<Rightarrow> 'f video \<Rightarrow> error + 'f video" where
  "crop_stage lib cfg img =
     (if crop_sides cfg \<or> crop_length cfg then t_crop lib cfg img else Inr img)"

text \<open>Lines 167 to 169: the r-wave crop at the rescaled frame rate.\<close>

definition rwave_stage ::
  "'r floatops \<Rightarrow> transforms \<Rightarrow> 'f video \<Rightarrow> 'r \<Rightarrow> 'r list \<Rightarrow> ('r \<times> (nat \<times> nat)) option
     \<Rightarrow> 'r option \<Rightarrow> error + 'f video" where
  "rwave_stage F cfg img fps rwaves rw curr_opt =
     (case rw of
        None \<Rightarrow> Inr img
      | Some (rwave_diff, rwave_indexes) \<Rightarrow>
          (case curr_opt of
             None \<Rightarrow> Inl UnboundLocalError
           | Some curr_fphb \<Rightarrow>
               (case py_div F (f_of_int F (target_fphb cfg)) curr_fphb of
                  Inl e \<Rightarrow> Inl e
                | Inr q \<Rightarrow> t_crop_rwave F cfg img rwaves rwave_indexes (f_mul F fps q))))"

text \<open>
  Lines 167 to 173: the r-wave crop, the loop and the padding. The outer \<open>option\<close> is
  \<open>None\<close> when the loop of \<open>t_loop_length\<close> does not return.
\<close>

definition length_stages ::
  "'f numlib \<Rightarrow> 'r floatops \<Rightarrow> transforms \<Rightarrow> 'f video \<Rightarrow> 'r \<Rightarrow> 'r list
     \<Rightarrow> ('r \<times> (nat \<times> nat)) option \<Rightarrow> 'r option \<Rightarrow> (error + 'f video) option" where
  "length_stages lib F cfg img3 fps rwaves rw curr_fphb =
     (case rwave_stage F cfg img3 fps rwaves rw curr_fphb of
        Inl e \<Rightarrow> Some (Inl e)
      | Inr img4 \<Rightarrow>
          (case (if loop_length cfg then t_loop_length lib cfg img4 else Some img4) of
             None \<Rightarrow> None
           | Some img5 \<Rightarrow>
               Some (if pad_length cfg then t_pad_length lib cfg img5 else Inr img5)))"

text \<open>\<open>transform_size\<close> up to the final check (lines 119 to 177).\<close>

definition transform_stages ::
  "'f numlib \<Rightarrow> 'r floatops \<Rightarrow> transforms \<Rightarrow> 'f video \<Rightarrow> 'r \<Rightarrow> 'r \<Rightarrow> 'r list
     \<Rightarrow> (error + 'f video) option" where
  "transform_stages lib F cfg img0 fps hr rwaves =
     (let img1 = (if grayscale cfg then t_grayscale_mean lib img0 else img0);
          rw = (if rwave_data_only cfg then Some (calc_rwave_data F rwaves) else None)
      in case rescale_stage lib F cfg img1 fps hr rw of
           Inl e \<Rightarrow> Some (Inl e)
         | Inr (img2, curr_fphb) \<Rightarrow>
             if loop_length cfg \<and> crop_length cfg \<and> rwave_data_only cfg
             then Some (Inl AssertionError)
             else
               (case crop_stage lib cfg img2 of
                  Inl e \<Rightarrow> Some (Inl e)
                | Inr img3 \<Rightarrow> length_stages lib F cfg img3 fps rwaves rw curr_fphb))"

text \<open>
  The final check (lines 178 to 180). \<open>img.shape[3]\<close> raises IndexError on an array of
  rank 3.
\<close>

definition shape_check :: "transforms \<Rightarrow> 'f video \<Rightarrow> error + 'f video" where
  "shape_check cfg img =
     (case channels img of
        None \<Rightarrow> Inl IndexError
      | Some c \<Rightarrow>
          if map int (shape img) \<noteq> [target_length cfg, target_height cfg, target_width cfg, int c]
          then Inl ShapeValueError
          else Inr img)"

definition transform_size ::
  "'f numlib \<Rightarrow> 'r floatops \<Rightarrow> transforms \<Rightarrow> 'f video \<Rightarrow> 'r \<Rightarrow> 'r \<Rightarrow> 'r list
     \<Rightarrow> (error + 'f video) option" where
  "transform_size lib F cfg img fps hr rwaves =
     (case transform_stages lib F cfg img fps hr rwaves of
        None \<Rightarrow> None
      | Some (Inl e) \<Rightarrow> Some (Inl e)
      | Some (Inr img') \<Rightarrow> Some (shape_check cfg img'))"

section \<open>A concrete library instance and configuration\<close>

text \<open>
  For evaluation on concrete inputs: videos whose frames have height 1 and width 1, a frame
  being given by one integer, the value of its pixel in every channel. Casting to 8 bits
  and the channel mean reduce it modulo 256, the resize takes the nearest earlier frame,
  and a padding frame holds the pad value. \<open>example_cfg\<close> has every flag disabled; the
  examples enable the flags they need.
\<close>

definition example_lib :: "int numlib" where
  "example_lib =
     \<lparr> average_u8 = (\<lambda>p. p mod 256), astype_u8 = (\<lambda>p. p mod 256),
       resize_fails = (\<lambda>s l h w. False),
       resize_frame = (\<lambda>b v l h w k. frames v ! (k * length (frames v) div l) mod 256),
       pad_frame = (\<lambda>b v. \<lfloor>b\<rfloor> mod 256) \<rparr>"

definition example_cfg :: transforms where
  "example_cfg =
     \<lparr> normalize_input = False, grayscale = False, rwave_data_only = False,
       rescale_fps = False, rescale_fphb = False, resize_frames = False, crop_sides = False,
       crop_length = False, loop_length = False, pad_length = False, target_fps = 15,
       target_fphb = 15, target_length = 2, target_height = 1, target_width = 1 \<rparr>"

definition example_video :: "int list \<Rightarrow> nat \<Rightarrow> int video" where
  "example_video ps c = \<lparr> frames = ps, height = 1, width = 1, channels = Some c \<rparr>"

section \<open>data/data\_augmentations.py: augmentations on pixels\<close>

text \<open>
  For the augmentations that address pixels, a frame is its rows of pixels and a pixel the
  list of its channel values. The values that a call draws from numpy's global random
  generator are arguments of the model.
\<close>

type_synonym pixel = "rat list"
type_synonym pframe = "pixel list list"

fun map_result :: "('a \<Rightarrow> error + 'b) \<Rightarrow> 'a list \<Rightarrow> error + 'b list" where
  "map_result f [] = Inr []"
| "map_result f (x # xs) =
     (case f x of
        Inl e \<Rightarrow> Inl e
      | Inr y \<Rightarrow> (case map_result f xs of Inl e \<Rightarrow> Inl e | Inr ys \<Rightarrow> Inr (y # ys)))"

text \<open>The number of indices selected by \<open>a:b\<close> on an axis of size \<open>n\<close>.\<close>

definition slice_len :: "nat \<Rightarrow> int \<Rightarrow> int \<Rightarrow> nat" where
  "slice_len n a b = nat (slice_bound (int n) b - slice_bound (int n) a)"

text \<open>
  numpy's assignment of a source block of shape \<open>(sh, sw)\<close> to a destination of shape
  \<open>(h, w)\<close>: an axis of the source must have the size of the destination or size 1
  (broadcast), otherwise ValueError.
\<close>

definition assign_broadcast :: "nat \<Rightarrow> nat \<Rightarrow> nat \<Rightarrow> nat \<Rightarrow> pframe \<Rightarrow> error + pframe" where
  "assign_broadcast h w sh sw src =
     (if (sh = h \<or> sh = 1) \<and> (sw = w \<or> sw = 1)
      then Inr (map (\<lambda>r. map (\<lambda>c. src ! (if sh = 1 then 0 else r) ! (if sw = 1 then 0 else c))
                              [0..<w])
                    [0..<h])
      else Inl LibValueError)"

subsection \<open>t\_zoom\<close>

text \<open>
  \<open>skimage.transform.rescale\<close> is a parameter: from a frame, the scale and the fill value
  it gives the rescaled frame with its height and width (\<open>zoom_frame.shape[0]\<close> and
  \<open>zoom_frame.shape[1]\<close>).
\<close>

record zoomed =
  zoom_rows :: pframe
  zoom_h :: nat
  zoom_w :: nat

text \<open>\<open>new_img[i] = zoom_frame[diff_h_start:diff_h_end, diff_w_start:diff_w_end, :]\<close>\<close>

definition zoom_in_frame :: "nat \<Rightarrow> nat \<Rightarrow> int \<Rightarrow> int \<Rightarrow> int \<Rightarrow> int \<Rightarrow> zoomed \<Rightarrow> error + pframe" where
  "zoom_in_frame h w diff_h_start diff_h_end diff_w_start diff_w_end z =
     assign_broadcast h w
       (slice_len (zoom_h z) diff_h_start diff_h_end) (slice_len (zoom_w z) diff_w_start diff_w_end)
       (map (\<lambda>row. py_slice row diff_w_start diff_w_end)
            (py_slice (zoom_rows z) diff_h_start diff_h_end))"

text \<open>
  \<open>new_img[i, abs(diff_h_start):abs(diff_h_end), abs(diff_w_start):abs(diff_w_end), :] = zoom_frame\<close>,
  the rest of the frame keeping the black value of \<open>new_img\<close>.
\<close>

definition zoom_out_frame ::
  "pixel \<Rightarrow> nat \<Rightarrow> nat \<Rightarrow> int \<Rightarrow> int \<Rightarrow> int \<Rightarrow> int \<Rightarrow> zoomed \<Rightarrow> error + pframe" where
  "zoom_out_frame black h w diff_h_start diff_h_end diff_w_start diff_w_end z =
     (let r0 = nat (slice_bound (int h) \<bar>diff_h_start\<bar>);
          c0 = nat (slice_bound (int w) \<bar>diff_w_start\<bar>);
          rh = slice_len h \<bar>diff_h_start\<bar> \<bar>diff_h_end\<bar>;
          rw = slice_len w \<bar>diff_w_start\<bar> \<bar>diff_w_end\<bar>
      in case assign_broadcast rh rw (zoom_h z) (zoom_w z) (zoom_rows z) of
           Inl e \<Rightarrow> Inl e
         | Inr block \<Rightarrow>
             Inr (map (\<lambda>r. map (\<lambda>c. if r0 \<le> r \<and> r < r0 + rh \<and> c0 \<le> c \<and> c < c0 + rw
                                      then block ! (r - r0) ! (c - c0) else black)
                                [0..<w])
                      [0..<h]))"

text \<open>
  \<open>t_zoom\<close>; \<open>zoom_factor0\<close> is the drawn value \<open>1 + np.random.normal(0, std)\<close>. The
  offsets are computed from the first frame and used for every frame. On an array of rank 3
  the indexed assignments raise IndexError.
\<close>

definition t_zoom ::
  "(pframe \<Rightarrow> rat \<Rightarrow> rat \<Rightarrow> zoomed) \<Rightarrow> transforms \<Rightarrow> rat \<Rightarrow> pframe video \<Rightarrow> error + pframe video" where
  "t_zoom rescale cfg zoom_factor0 img =
     (let zoom_factor = (if zoom_factor0 < 0 then 1 else zoom_factor0) in
      case frames img of
        [] \<Rightarrow> Inr (img\<lparr> frames := [] \<rparr>)
      | frame # rest \<Rightarrow>
          let z = rescale frame zoom_factor (black_val cfg);
              diff_height = int (zoom_h z) - int (height img);
              diff_width = int (zoom_w z) - int (width img)
          in if zoom_factor = 1 \<or> (diff_height = 0 \<and> diff_width = 0) then Inr img
             else case channels img of
                    None \<Rightarrow> Inl IndexError
                  | Some c \<Rightarrow>
                      if zoom_factor > 1 then
                        (let diff_h_start = py_int (of_int diff_height / 2);
                             diff_h_end = int (height img) + diff_h_start;
                             diff_w_start = py_int (of_int diff_width / 2);
                             diff_w_end = int (width img) + diff_w_start
                         in case map_result
                                   (\<lambda>f. zoom_in_frame (height img) (width img)
                                          diff_h_start diff_h_end diff_w_start diff_w_end
                                          (rescale f zoom_factor (black_val cfg)))
                                   (frames img) of
                              Inl e \<Rightarrow> Inl e
                            | Inr fs \<Rightarrow> Inr (img\<lparr> frames := fs \<rparr>))
                      else
                        (let diff_h_start = py_int (of_int \<bar>diff_height\<bar> / 2);
                             diff_h_end = int (zoom_h z) + diff_h_start;
                             diff_w_start = py_int (of_int \<bar>diff_width\<bar> / 2);
                             diff_w_end = int (zoom_w z) + diff_w_start
                         in case map_result
                                   (\<lambda>f. zoom_out_frame (replicate c (black_val cfg))
                                          (height img) (width img)
                                          diff_h_start diff_h_end diff_w_start diff_w_end
                                          (rescale f zoom_factor (black_val cfg)))
                                   (frames img) of
                              Inl e \<Rightarrow> Inl e
                            | Inr fs \<Rightarrow> Inr (img\<lparr> frames := fs \<rparr>)))"

subsection \<open>t\_local\_blackout and t\_local\_intensity\<close>

text \<open>
  These two write through views of their argument, so arrays live in a store: an array
  object is an address, \<open>arrays\<close> gives the contents at an address and \<open>next_free\<close> is
  the address of the next new array. A transposed view is the same address. What an
  assignment stores depends on the element type of the array, so it is a parameter:
  \<open>cast x\<close> is the element stored for the value \<open>x\<close>, and \<open>shift x v\<close> the element
  stored by \<open>frame[...] = frame[...] + v\<close> where the element was \<open>x\<close> (the float
  addition in the element type of the array, then the conversion).
\<close>

record heap =
  arrays :: "nat \<Rightarrow> pframe video"
  next_free :: nat

definition alloc :: "heap \<Rightarrow> pframe video \<Rightarrow> heap \<times> nat" where
  "alloc h v = (h\<lparr> arrays := (arrays h)(next_free h := v), next_free := Suc (next_free h) \<rparr>,
                next_free h)"

definition in_slice :: "nat \<Rightarrow> int \<Rightarrow> int \<Rightarrow> nat \<Rightarrow> bool" where
  "in_slice n a b i = (slice_bound (int n) a \<le> int i \<and> int i < slice_bound (int n) b)"

text \<open>
  \<open>frame[h0:h1, w0:w1] = f(frame[h0:h1, w0:w1])\<close> for the frame of every channel: the
  values of the pixels inside the rectangle are replaced, channel by channel.
\<close>

definition map_rect ::
  "(rat \<Rightarrow> rat) \<Rightarrow> nat \<Rightarrow> nat \<Rightarrow> int \<Rightarrow> int \<Rightarrow> int \<Rightarrow> int \<Rightarrow> pframe \<Rightarrow> pframe" where
  "map_rect f h w h0 h1 w0 w1 frame =
     map (\<lambda>(r, row).
            if in_slice h h0 h1 r
            then map (\<lambda>(c, px). if in_slice w w0 w1 c then map f px else px) (enumerate 0 row)
            else row)
         (enumerate 0 frame)"

record blackout_draws =
  bo_normal_h :: rat   \<comment> \<open>\<open>np.random.normal(0, blackout_h_std_dev)\<close>\<close>
  bo_normal_w :: rat
  bo_pos_h :: int      \<comment> \<open>\<open>np.random.randint(0, video.shape[1] - bo_size_h)\<close>\<close>
  bo_pos_w :: int

definition t_local_blackout ::
  "transforms \<Rightarrow> (rat \<Rightarrow> rat) \<Rightarrow> blackout_draws \<Rightarrow> heap \<Rightarrow> nat \<Rightarrow> error + (heap \<times> nat)" where
  "t_local_blackout cfg cast d h a =
     (let video = arrays h a;
          bo_size_h = py_int \<bar>bo_normal_h d\<bar>;
          bo_size_w = py_int \<bar>bo_normal_w d\<bar>
      in if int (height video) - bo_size_h \<le> 0 then Inl LibValueError
         else if int (width video) - bo_size_w \<le> 0 then Inl LibValueError
         else case channels video of
                None \<Rightarrow> Inl LibValueError
              | Some c \<Rightarrow>
                  Inr (h\<lparr> arrays := (arrays h)
                          (a := video\<lparr> frames :=
                                  map (map_rect (\<lambda>x. cast (black_val cfg))
                                         (height video) (width video)
                                         (bo_pos_h d) (bo_pos_h d + bo_size_h)
                                         (bo_pos_w d) (bo_pos_w d + bo_size_w))
                                      (frames video) \<rparr>) \<rparr>,
                       a))"

record intensity_draws =
  ints_normal_h :: rat
  ints_normal_w :: rat
  ints_pos_h :: int
  ints_pos_w :: int
  ints_val :: rat      \<comment> \<open>\<open>np.random.normal(0, intensity_var)\<close>\<close>

definition np_clip :: "rat \<Rightarrow> rat \<Rightarrow> pframe video \<Rightarrow> pframe video" where
  "np_clip lo hi video =
     video\<lparr> frames := map (map (map (map (\<lambda>x. min hi (max x lo))))) (frames video) \<rparr>"

definition t_local_intensity ::
  "transforms \<Rightarrow> (rat \<Rightarrow> rat \<Rightarrow> rat) \<Rightarrow> intensity_draws \<Rightarrow> heap \<Rightarrow> nat
     \<Rightarrow> error + (heap \<times> nat)" where
  "t_local_intensity cfg shift d h a =
     (let video = arrays h a;
          ints_size_h = py_int \<bar>ints_normal_h d\<bar>;
          ints_size_w = py_int \<bar>ints_normal_w d\<bar>
      in if int (height video) - ints_size_h \<le> 0 then Inl LibValueError
         else if int (width video) - ints_size_w \<le> 0 then Inl LibValueError
         else case channels video of
                None \<Rightarrow> Inl LibValueError
              | Some c \<Rightarrow>
                  let video' = video\<lparr> frames :=
                                  map (map_rect (\<lambda>x. shift x (ints_val d))
                                         (height video) (width video)
                                         (ints_pos_h d) (ints_pos_h d + ints_size_h)
                                         (ints_pos_w d) (ints_pos_w d + ints_size_w))
                                      (frames video) \<rparr>;
                      h' = h\<lparr> arrays := (arrays h)(a := video') \<rparr>
                  in Inr (alloc h' (np_clip (black_val cfg) (white_val cfg) video')))"

subsection \<open>Concrete instances for the pixel augmentations\<close>

text \<open>
  A rescale for evaluation: the output size is the rounded scaled size and at least 1 in
  each direction, the contents are taken from the nearest earlier pixel.
\<close>

definition example_rescale :: "pframe \<Rightarrow> rat \<Rightarrow> rat \<Rightarrow> zoomed" where
  "example_rescale frame scale cval =
     (let h = length frame; w = (case frame of [] \<Rightarrow> 0 | row # _ \<Rightarrow> length row);
          zh = max (nat (round (scale * of_nat h))) 1;
          zw = max (nat (round (scale * of_nat w))) 1
      in \<lparr> zoom_rows = map (\<lambda>r. map (\<lambda>c. frame ! (r * h div zh) ! (c * w div zw)) [0..<zw]) [0..<zh],
           zoom_h = zh, zoom_w = zw \<rparr>)"

definition example_pvideo :: "pframe video" where
  "example_pvideo = \<lparr> frames = [[[[1], [2]], [[3], [4]]]], height = 2, width = 2, channels = Some 1 \<rparr>"

definition example_heap :: heap where
  "example_heap = \<lparr> arrays = (\<lambda>a. example_pvideo), next_free = 1 \<rparr>"

text \<open>What a call leaves at an address, and the array it returns.\<close>

definition contents_after :: "error + (heap \<times> nat) \<Rightarrow> nat \<Rightarrow> error + pframe video" where
  "contents_after res a = (case res of Inl e \<Rightarrow> Inl e | Inr (h, r) \<Rightarrow> Inr (arrays h a))"

definition returned :: "error + (heap \<times> nat) \<Rightarrow> error + nat" where
  "returned res = (case res of Inl e \<Rightarrow> Inl e | Inr (h, r) \<Rightarrow> Inr r)"

text \<open>
  \<open>same_outside v v' h0 h1 w0 w1\<close>: the video \<open>v'\<close> has the shape of \<open>v\<close>, the same
  rows and row lengths, and the same pixels everywhere outside the rectangle of rows
  \<open>h0:h1\<close> and columns \<open>w0:w1\<close>. \<open>rect_written f v v' h0 h1 w0 w1\<close>: inside that
  rectangle every channel value \<open>x\<close> of \<open>v\<close> has become \<open>f x\<close> in \<open>v'\<close>.
\<close>

definition outside_rect :: "pframe video \<Rightarrow> int \<Rightarrow> int \<Rightarrow> int \<Rightarrow> int \<Rightarrow> nat \<Rightarrow> nat \<Rightarrow> bool" where
  "outside_rect video h0 h1 w0 w1 r c =
     (\<not> (in_slice (height video) h0 h1 r \<and> in_slice (width video) w0 w1 c))"

definition same_outside :: "pframe video \<Rightarrow> pframe video \<Rightarrow> int \<Rightarrow> int \<Rightarrow> int \<Rightarrow> int \<Rightarrow> bool" where
  "same_outside v v' h0 h1 w0 w1 =
     (shape v' = shape v
      \<and> map (map length) (frames v') = map (map length) (frames v)
      \<and> (\<forall>i \<in> {0..<length (frames v)}.
           \<forall>r \<in> {0..<length (frames v ! i)}.
             \<forall>c \<in> {0..<length (frames v ! i ! r)}.
               outside_rect v h0 h1 w0 w1 r c \<longrightarrow> frames v' ! i ! r ! c = frames v ! i ! r ! c))"

definition rect_written ::
  "(rat \<Rightarrow> rat) \<Rightarrow> pframe video \<Rightarrow> pframe video \<Rightarrow> int \<Rightarrow> int \<Rightarrow> int \<Rightarrow> int \<Rightarrow> bool" where
  "rect_written f v v' h0 h1 w0 w1 =
     (\<forall>i \<in> {0..<length (frames v)}.
        \<forall>r \<in> {0..<length (frames v ! i)}.
          \<forall>c \<in> {0..<length (frames v ! i ! r)}.
            \<not> outside_rect v h0 h1 w0 w1 r c
              \<longrightarrow> frames v' ! i ! r ! c = map f (frames v ! i ! r ! c))"

section \<open>Theorems\<close>

subsection \<open>AverageMeterDDP\<close>

lemma update_slots_ok:
  assumes "\<forall>i\<in>set js. i < length v \<and> i < n" and "distinct js"
    and "length (val m) = n" and "length (sumv m) = n" and "length (avg m) = n"
  shows "\<exists>m'. update_slots F v js m = Inr m' \<and> count m' = count m \<and> step m' = step m
           \<and> n_classes m' = n_classes m
           \<and> length (val m') = n \<and> length (sumv m') = n \<and> length (avg m') = n
           \<and> (\<forall>i<n. sumv m' ! i = (if i \<in> set js then f_add F (sumv m ! i) (v ! i)
                                   else sumv m ! i))
           \<and> (\<forall>i<n. avg m' ! i = (if i \<in> set js
                                  then f_div F (f_add F (sumv m ! i) (v ! i)) (f_of_int F (count m))
                                  else avg m ! i))"
  using assms
proof (induction js arbitrary: m)
  case Nil
  then show ?case by simp
next
  case (Cons j js)
  let ?m1 = "m\<lparr> val := (val m)[j := v ! j],
                 sumv := (sumv m)[j := f_add F (sumv m ! j) (v ! j)],
                 avg := (avg m)[j := f_div F (f_add F (sumv m ! j) (v ! j))
                                          (f_of_int F (count m))] \<rparr>"
  have j: "j < length v" "j < n" "j \<notin> set js" using Cons.prems by auto
  have step: "update_slots F v (j # js) m = update_slots F v js ?m1"
    using j Cons.prems by simp
  have "\<exists>m'. update_slots F v js ?m1 = Inr m' \<and> count m' = count ?m1 \<and> step m' = step ?m1
           \<and> n_classes m' = n_classes ?m1
           \<and> length (val m') = n \<and> length (sumv m') = n \<and> length (avg m') = n
           \<and> (\<forall>i<n. sumv m' ! i = (if i \<in> set js then f_add F (sumv ?m1 ! i) (v ! i)
                                   else sumv ?m1 ! i))
           \<and> (\<forall>i<n. avg m' ! i = (if i \<in> set js
                                  then f_div F (f_add F (sumv ?m1 ! i) (v ! i)) (f_of_int F (count ?m1))
                                  else avg ?m1 ! i))"
    by (rule Cons.IH) (use Cons.prems in auto)
  then obtain m' where m': "update_slots F v js ?m1 = Inr m'" "count m' = count m" "step m' = step m"
      "n_classes m' = n_classes m"
      "length (val m') = n" "length (sumv m') = n" "length (avg m') = n"
      "\<forall>i<n. sumv m' ! i = (if i \<in> set js then f_add F (sumv ?m1 ! i) (v ! i) else sumv ?m1 ! i)"
      "\<forall>i<n. avg m' ! i = (if i \<in> set js
                                  then f_div F (f_add F (sumv ?m1 ! i) (v ! i)) (f_of_int F (count ?m1))
                                  else avg ?m1 ! i)"
    by auto
  show ?case
    unfolding step using m' j Cons.prems(3-5)
    by (auto simp: nth_list_update)
qed

lemma update_ok:
  assumes "n_classes m \<le> length v"
    and "length (val m) = n_classes m" and "length (sumv m) = n_classes m"
    and "length (avg m) = n_classes m"
  shows "\<exists>m'. update F None m v = Inr m' \<and> count m' = count m + step m \<and> step m' = step m
           \<and> n_classes m' = n_classes m
           \<and> length (val m') = n_classes m \<and> length (sumv m') = n_classes m
           \<and> length (avg m') = n_classes m
           \<and> (\<forall>i<n_classes m. sumv m' ! i = f_add F (sumv m ! i) (v ! i))
           \<and> (\<forall>i<n_classes m. avg m' ! i = f_div F (sumv m' ! i) (f_of_int F (count m')))"
proof -
  let ?m1 = "m\<lparr> count := count m + step m \<rparr>"
  let ?n = "n_classes m"
  have "\<exists>m'. update_slots F v [0..<?n] ?m1 = Inr m' \<and> count m' = count ?m1 \<and> step m' = step ?m1
           \<and> n_classes m' = n_classes ?m1
           \<and> length (val m') = ?n \<and> length (sumv m') = ?n \<and> length (avg m') = ?n
           \<and> (\<forall>i<?n. sumv m' ! i = (if i \<in> set [0..<?n] then f_add F (sumv ?m1 ! i) (v ! i)
                                   else sumv ?m1 ! i))
           \<and> (\<forall>i<?n. avg m' ! i = (if i \<in> set [0..<?n]
                                  then f_div F (f_add F (sumv ?m1 ! i) (v ! i)) (f_of_int F (count ?m1))
                                  else avg ?m1 ! i))"
    by (rule update_slots_ok) (use assms in auto)
  then show ?thesis
    by (auto simp: update_def Let_def)
qed

lemma updates_ok:
  assumes "\<forall>v\<in>set vs. n_classes m \<le> length v"
    and "length (val m) = n_classes m" and "length (sumv m) = n_classes m"
    and "length (avg m) = n_classes m" and "step m = 1"
  shows "\<exists>m'. updates F None m vs = Inr m' \<and> count m' = count m + int (length vs)
           \<and> n_classes m' = n_classes m
           \<and> (\<forall>i<n_classes m. sumv m' ! i = foldl (f_add F) (sumv m ! i) (map (\<lambda>v. v ! i) vs))
           \<and> (vs \<noteq> [] \<longrightarrow>
                (\<forall>i<n_classes m. avg m' ! i = f_div F (sumv m' ! i) (f_of_int F (count m'))))"
  using assms
proof (induction vs arbitrary: m)
  case Nil
  then show ?case by simp
next
  case (Cons v vs)
  from update_ok [of m v F] Cons.prems
  obtain m1 where m1: "update F None m v = Inr m1" "count m1 = count m + 1" "step m1 = 1"
      "n_classes m1 = n_classes m" "length (val m1) = n_classes m" "length (sumv m1) = n_classes m"
      "length (avg m1) = n_classes m" "\<forall>i<n_classes m. sumv m1 ! i = f_add F (sumv m ! i) (v ! i)"
      "\<forall>i<n_classes m. avg m1 ! i = f_div F (sumv m1 ! i) (f_of_int F (count m1))"
    by auto
  have "\<exists>m'. updates F None m1 vs = Inr m' \<and> count m' = count m1 + int (length vs)
           \<and> n_classes m' = n_classes m1
           \<and> (\<forall>i<n_classes m1. sumv m' ! i = foldl (f_add F) (sumv m1 ! i) (map (\<lambda>v. v ! i) vs))
           \<and> (vs \<noteq> [] \<longrightarrow>
                (\<forall>i<n_classes m1. avg m' ! i = f_div F (sumv m' ! i) (f_of_int F (count m'))))"
    by (rule Cons.IH) (use m1 Cons.prems in auto)
  then obtain m' where m': "updates F None m1 vs = Inr m'" "count m' = count m1 + int (length vs)"
      "n_classes m' = n_classes m1"
      "\<forall>i<n_classes m1. sumv m' ! i = foldl (f_add F) (sumv m1 ! i) (map (\<lambda>v. v ! i) vs)"
      "vs \<noteq> [] \<longrightarrow>
         (\<forall>i<n_classes m1. avg m' ! i = f_div F (sumv m' ! i) (f_of_int F (count m')))"
    by auto
  show ?case
  proof (cases "vs = []")
    case True
    then show ?thesis using m1 by simp
  next
    case False
    then show ?thesis using m1 m' by simp
  qed
qed

text \<open>
  Claim C6, amended. A meter is created and updated with no active process group, every
  value vector having at least \<open>n_classes\<close> entries. Then no call raises, the sample
  counter equals the number of calls made so far (one per call), and after each call every
  slot of the stored average is the float quotient of the running float sum of that slot by
  the counter.
\<close>

theorem C6_running_float_mean:
  assumes "\<forall>v\<in>set vs. n \<le> length v"
  shows "\<exists>m. updates F None (AverageMeterDDP_init F None n) vs = Inr m
           \<and> count m = int (length vs)
           \<and> (vs \<noteq> [] \<longrightarrow>
                (\<forall>i<n. avg m ! i = f_div F (float_sum F vs i) (f_of_int F (int (length vs)))))"
proof -
  let ?m0 = "AverageMeterDDP_init F None n"
  have "\<exists>m'. updates F None ?m0 vs = Inr m' \<and> count m' = count ?m0 + int (length vs)
           \<and> n_classes m' = n_classes ?m0
           \<and> (\<forall>i<n_classes ?m0. sumv m' ! i = foldl (f_add F) (sumv ?m0 ! i) (map (\<lambda>v. v ! i) vs))
           \<and> (vs \<noteq> [] \<longrightarrow>
                (\<forall>i<n_classes ?m0. avg m' ! i = f_div F (sumv m' ! i) (f_of_int F (count m'))))"
    by (rule updates_ok) (use assms in \<open>auto simp: AverageMeterDDP_init_def\<close>)
  then show ?thesis
    by (auto simp: AverageMeterDDP_init_def float_sum_def)
qed

theorem C6_running_float_mean_witness:
  "\<exists>m. updates binary64 None (AverageMeterDDP_init binary64 None 1) [[2], [4], [9]] = Inr m
        \<and> count m = 3 \<and> avg m ! 0 = 5"
proof -
  have q: "f_div binary64 (float_sum binary64 [[2], [4], [9]] 0) (f_of_int binary64 (int (length [[2 :: rat], [4], [9]]))) = 5"
    by code_simp
  show ?thesis
    using C6_running_float_mean [of "[[2], [4], [9]]" 1 binary64] q by simp
qed

text \<open>
  Claim C6 as stated: the stored average would be the arithmetic mean. After the updates
  10 to the power 16, 1, 1 the float sum is still 10 to the power 16 and the stored average is
  3333333333333333.5, while the mean is 3333333333333334.
\<close>

theorem C6_counterexample:
  "map_sum id avg (updates binary64 None (AverageMeterDDP_init binary64 None 1)
                     [[10000000000000000], [1], [1]])
     = Inr [6666666666666667 / 2]
   \<and> (10000000000000000 + 1 + 1) / 3 \<noteq> (6666666666666667 / 2 :: rat)"
  by code_simp

subsection \<open>DistributedWeightedSampler\<close>

text \<open>
  Claim C7. Construction with \<open>replacement=False\<close> never yields a sampler; once the
  constructor of the underlying distributed sampler has returned, it is the assertion that
  fails. With \<open>replacement=True\<close> the sampler is built and the length it reports is
  the underlying sampler's per-process sample count \<open>num_samples\<close>.
\<close>

theorem C7_sampler_construction:
  "(\<exists>e. DistributedWeightedSampler_init p n False = Inl e)
   \<and> DistributedWeightedSampler_init (Inr b) n False = Inl AssertionError
   \<and> (\<exists>s. DistributedWeightedSampler_init (Inr b) n True = Inr s
          \<and> DistributedWeightedSampler_len s = num_samples b)"
  by (cases p) (simp_all add: DistributedWeightedSampler_init_def DistributedWeightedSampler_len_def)

subsection \<open>MultiStream and MultiStreamShared\<close>

lemma MultiStream_forward_never_returns:
  "\<exists>e. MultiStream_forward self x = Inl e"
  by (simp add: MultiStream_forward_def split: list.splits)

lemma MultiStream_forward_assert:
  "length x \<noteq> ms_num_models self \<Longrightarrow> MultiStream_forward self x = Inl AssertionError"
  by (simp add: MultiStream_forward_def)

lemma MultiStreamShared_forward_assert:
  "length x \<noteq> mss_num_models self \<Longrightarrow> MultiStreamShared_forward self x = Inl AssertionError"
  by (simp add: MultiStreamShared_forward_def)

text \<open>
  Claim C2. Both \<open>forward\<close> methods fail the assertion on a wrong number of inputs
  (the two lemmas above). For a matching count the claim promises an output of shape
  (batch, 1); \<open>MultiStream.forward\<close> instead raises AttributeError on its first
  iteration, here with two backbones and two inputs of batch size 4.
\<close>

theorem C2_MultiStream_forward_fails:
  "MultiStream_forward
     (MultiStream_init [(''img'', \<lambda>s. Inr [hd s, 1]), (''flow'', \<lambda>s. Inr [hd s, 1])])
     [[4, 3, 15, 97, 127], [4, 2, 15, 97, 127]] = Inl AttributeError"
  by (simp add: MultiStream_forward_def MultiStream_init_def dict_set_def)

lemma MultiStreamShared_forward_example:
  "MultiStreamShared_forward
     (MultiStreamShared_init (\<lambda>s. Inr [hd s, 1]) (\<lambda>s. Inr [hd s, 1]) 2)
     [[4, 3, 15, 97, 127], [4, 2, 15, 97, 127]] = Inr [4, 1]"
  by (simp add: MultiStreamShared_forward_def MultiStreamShared_init_def torch_stack1_def
      squeeze_def linear_apply_def)

lemma MultiStreamShared_forward_batch1:
  "MultiStreamShared_forward
     (MultiStreamShared_init (\<lambda>s. Inr [hd s, 1]) (\<lambda>s. Inr [hd s, 1]) 2)
     [[1, 3, 15, 97, 127], [1, 2, 15, 97, 127]] = Inr [1]"
  by (simp add: MultiStreamShared_forward_def MultiStreamShared_init_def torch_stack1_def
      squeeze_def linear_apply_def)

subsection \<open>t\_crop\<close>

lemma py_slice_prefix:
  assumes "0 \<le> b" and "b \<le> int (length xs)"
  shows "py_slice xs 0 b = take (nat b) xs"
  using assms by (simp add: py_slice_def slice_bound_def Let_def min_def)


text \<open>
  Claim C5, amended. With \<open>crop_length\<close> enabled and a sequence longer than the target
  length T, \<open>t_crop\<close> keeps the first T frames (cast to 8 bits): the frames beyond
  the target length are removed from the end of the sequence, not from its start.
\<close>

theorem C5_crop_keeps_first_frames:
  assumes "crop_length cfg" and "channels img = Some c"
    and "0 \<le> target_length cfg" and "target_length cfg < int (length (frames img))"
  shows "t_crop lib cfg img
           = Inr (img\<lparr> frames := map (astype_u8 lib) (take (nat (target_length cfg)) (frames img)) \<rparr>)
         \<and> length (take (nat (target_length cfg)) (frames img)) = nat (target_length cfg)"
proof -
  let ?len = "int (length (frames img))"
  have "py_slice (frames img) 0 (?len - (?len - target_length cfg))
          = take (nat (target_length cfg)) (frames img)"
    using assms(3,4) by (simp add: py_slice_prefix)
  then show ?thesis
    using assms by (simp add: t_crop_def Let_def)
qed

theorem C5_crop_keeps_first_frames_witness:
  "t_crop example_lib (example_cfg\<lparr> crop_length := True \<rparr>) (example_video [10, 20, 30] 1)
     = Inr (example_video [10, 20] 1)"
  using C5_crop_keeps_first_frames [of "example_cfg\<lparr> crop_length := True \<rparr>"
      "example_video [10, 20, 30] 1" 1 example_lib]
  by (simp add: example_cfg_def example_video_def example_lib_def)

text \<open>
  Claim C5 as stated: the result would be the last T frames. On the three frames
  10, 20, 30 with target length 2 the code returns 10, 20, not 20, 30.
\<close>

theorem C5_counterexample:
  "t_crop example_lib (example_cfg\<lparr> crop_length := True \<rparr>) (example_video [10, 20, 30] 1)
     \<noteq> Inr (example_video [20, 30] 1)"
  by (simp add: t_crop_def py_slice_def slice_bound_def Let_def example_cfg_def
      example_video_def example_lib_def)

lemma t_crop_ignores_crop_sides:
  "t_crop lib (cfg\<lparr> crop_sides := b \<rparr>) img = t_crop lib cfg img"
  by (simp add: t_crop_def Let_def cong: if_cong)

lemma t_crop_full:
  assumes "\<not> crop_length cfg" and "channels img = Some c"
  shows "t_crop lib cfg img = Inr (img\<lparr> frames := map (astype_u8 lib) (frames img) \<rparr>)"
  using assms by (simp add: t_crop_def py_slice_def slice_bound_def Let_def)

lemma t_crop_spatial:
  assumes "t_crop lib cfg img = Inr img'"
  shows "height img' = height img \<and> width img' = width img \<and> channels img' = channels img"
  using assms by (auto simp: t_crop_def Let_def split: option.splits)

subsection \<open>t\_crop\_rwave\<close>

lemma rwave_window_shifted:
  "rwave_window len fphb s0 e0 =
     (let s = (if e0 > len then s0 - 1 else s0); e = (if e0 > len then e0 - 1 else e0)
      in if e - s < fphb then
           (if e < len then Inr (s, e + 1)
            else if s > 0 then Inr (s - 1, e)
            else Inl CropValueError)
         else if e - s > fphb then
           (if s < e - 1 then Inr (s + 1, e)
            else Inl CropValueError)
         else Inr (s, e))"
  by (simp add: rwave_window_def Let_def)





text \<open>
  The truncation is of the float product: for the r-wave at 1160 ms and 25 frames per
  second the product is just below 29 and the frame is 28, so a video of 40 frames with
  r-waves at 600 and 1160 ms and a target of 15 is cut to the 14 frames 15 to 28.
\<close>

lemma rwave_frame_rounding:
  "rwave_frame binary64 1160 25 = Inr 28 \<and> rwave_frame binary64 600 25 = Inr 15"
  by code_simp

lemma t_crop_rwave_rounding:
  "t_crop_rwave binary64 (example_cfg\<lparr> target_fphb := 15 \<rparr>)
       (example_video (map int [0..<40]) 1) [600, 1160] (0, 1) 25
     = Inr (example_video (map int [15..<29]) 1)"
  by code_simp

subsection \<open>transform\_size\<close>

lemma black_val_ignores_crop_sides:
  "black_val (cfg\<lparr> crop_sides := b \<rparr>) = black_val cfg"
  by (simp add: black_val_def)

lemma stages_ignore_crop_sides:
  "t_resize lib (cfg\<lparr> crop_sides := b \<rparr>) img l h w = t_resize lib cfg img l h w"
  "new_length_of F (cfg\<lparr> crop_sides := b \<rparr>) len fps hr rw = new_length_of F cfg len fps hr rw"
  "t_crop_rwave F (cfg\<lparr> crop_sides := b \<rparr>) img rwaves ix fps = t_crop_rwave F cfg img rwaves ix fps"
  "t_loop_length lib (cfg\<lparr> crop_sides := b \<rparr>) img = t_loop_length lib cfg img"
  "t_pad_length lib (cfg\<lparr> crop_sides := b \<rparr>) img = t_pad_length lib cfg img"
  "shape_check (cfg\<lparr> crop_sides := b \<rparr>) img = shape_check cfg img"
  by (simp_all add: black_val_ignores_crop_sides t_resize_def new_length_of_def t_crop_rwave_def
      t_loop_length_def t_pad_length_def shape_check_def Let_def
      cong: if_cong option.case_cong sum.case_cong)

lemma rescale_stage_ignores_crop_sides:
  "rescale_stage lib F (cfg\<lparr> crop_sides := b \<rparr>) img fps hr rw = rescale_stage lib F cfg img fps hr rw"
  by (simp add: rescale_stage_def stages_ignore_crop_sides
      cong: if_cong option.case_cong sum.case_cong)

lemma rwave_stage_ignores_crop_sides:
  "rwave_stage F (cfg\<lparr> crop_sides := b \<rparr>) img fps rwaves rw cu = rwave_stage F cfg img fps rwaves rw cu"
  by (simp add: rwave_stage_def stages_ignore_crop_sides cong: if_cong option.case_cong sum.case_cong)

lemma length_stages_ignores_crop_sides:
  "length_stages lib F (cfg\<lparr> crop_sides := b \<rparr>) img fps rwaves rw cu
     = length_stages lib F cfg img fps rwaves rw cu"
  by (simp add: length_stages_def stages_ignore_crop_sides rwave_stage_ignores_crop_sides
      cong: if_cong option.case_cong sum.case_cong)

lemma transform_size_ignores_crop_sides:
  assumes "crop_length cfg"
  shows "transform_size lib F (cfg\<lparr> crop_sides := b \<rparr>) img fps hr rwaves
           = transform_size lib F cfg img fps hr rwaves"
  using assms
  by (simp add: transform_size_def transform_stages_def crop_stage_def stages_ignore_crop_sides
      rescale_stage_ignores_crop_sides length_stages_ignores_crop_sides t_crop_ignores_crop_sides
      cong: if_cong option.case_cong sum.case_cong)

lemma rescale_stage_channels:
  assumes "rescale_stage lib F cfg img fps hr rw = Inr (img2, cu)"
  shows "channels img2 = channels img"
proof (cases "rescale_fps cfg \<or> resize_frames cfg \<or> rescale_fphb cfg")
  case False
  then show ?thesis using assms by (simp add: rescale_stage_def)
next
  case True
  then have na: "\<not> (rescale_fps cfg \<and> rescale_fphb cfg)"
    using assms by (auto simp: rescale_stage_def)
  obtain nl c where nl: "new_length_of F cfg (length (frames img)) fps hr rw = Inr (nl, c)"
    using assms True na by (auto simp: rescale_stage_def split: sum.splits)
  obtain nh nw where hw: "(if resize_frames cfg \<and> \<not> (int (height img) = target_height cfg
                                                  \<and> int (width img) = target_width cfg)
                         then (target_height cfg, target_width cfg)
                         else (int (height img), int (width img))) = (nh, nw)"
    by fastforce
  have "rescale_stage lib F cfg img fps hr rw =
          (case t_resize lib cfg img nl nh nw of Inl e \<Rightarrow> Inl e | Inr img' \<Rightarrow> Inr (img', c))"
    unfolding rescale_stage_def if_P [OF True] if_not_P [OF na] nl hw by simp
  then have "t_resize lib cfg img nl nh nw = Inr img2"
    using assms by (simp split: sum.splits)
  then show ?thesis
    by (auto simp: t_resize_def split: if_splits)
qed

text \<open>
  With \<open>crop_length\<close> disabled and no assertion failing, the stages with \<open>crop_sides\<close>
  enabled are the stages without it, run on the video cast to 8 bits.
\<close>

lemma transform_stages_crop_sides:
  assumes "\<not> crop_length cfg" and "\<not> grayscale cfg" and "channels img = Some c"
    and "rw = (if rwave_data_only cfg then Some (calc_rwave_data F rwaves) else None)"
    and "rescale_stage lib F cfg img fps hr rw = Inr (img2, cu)"
  shows "transform_stages lib F (cfg\<lparr> crop_sides := True \<rparr>) img fps hr rwaves
           = length_stages lib F cfg (img2\<lparr> frames := map (astype_u8 lib) (frames img2) \<rparr>)
               fps rwaves rw cu"
    and "transform_stages lib F (cfg\<lparr> crop_sides := False \<rparr>) img fps hr rwaves
           = length_stages lib F cfg img2 fps rwaves rw cu"
proof -
  have c2: "channels img2 = Some c"
    using rescale_stage_channels [OF assms(5)] assms(3) by simp
  have crop: "t_crop lib (cfg\<lparr> crop_sides := True \<rparr>) img2
                = Inr (img2\<lparr> frames := map (astype_u8 lib) (frames img2) \<rparr>)"
    using t_crop_full [of "cfg\<lparr> crop_sides := True \<rparr>" img2 c lib] assms(1) c2 by simp
  show "transform_stages lib F (cfg\<lparr> crop_sides := True \<rparr>) img fps hr rwaves
           = length_stages lib F cfg (img2\<lparr> frames := map (astype_u8 lib) (frames img2) \<rparr>)
               fps rwaves rw cu"
    using assms(1,2,4,5) crop
    by (simp add: transform_stages_def crop_stage_def rescale_stage_ignores_crop_sides
        length_stages_ignores_crop_sides)
  show "transform_stages lib F (cfg\<lparr> crop_sides := False \<rparr>) img fps hr rwaves
           = length_stages lib F cfg img2 fps rwaves rw cu"
    using assms(1,2,4,5)
    by (simp add: transform_stages_def crop_stage_def rescale_stage_ignores_crop_sides
        length_stages_ignores_crop_sides)
qed

text \<open>
  Claim C10. On a video of rank 4, with \<open>crop_length\<close> disabled \<open>t_crop\<close> returns
  all frames, only cast to 8 bits. The flag \<open>crop_sides\<close> is not read by \<open>t_crop\<close>:
  the result is the same whatever its value, and height, width and channel count are always
  those of the input. In \<open>transform_size\<close> the flag only causes the call: with
  \<open>crop_length\<close> enabled it changes nothing, and with \<open>crop_length\<close> disabled (and
  grayscale conversion disabled, so that the video has rank 4) enabling it passes the
  rescaled video on to the later stages with its frames cast to 8 bits and nothing else
  changed, where disabling it passes the rescaled video on as it is.
\<close>

theorem C10_no_length_crop:
  assumes "channels img = Some c"
  shows "(\<not> crop_length cfg \<longrightarrow>
            t_crop lib cfg img = Inr (img\<lparr> frames := map (astype_u8 lib) (frames img) \<rparr>))
         \<and> t_crop lib (cfg\<lparr> crop_sides := b \<rparr>) img = t_crop lib cfg img
         \<and> (\<exists>img'. t_crop lib cfg img = Inr img' \<and> height img' = height img
                \<and> width img' = width img \<and> channels img' = channels img)
         \<and> (crop_length cfg \<longrightarrow>
              transform_size lib F (cfg\<lparr> crop_sides := b \<rparr>) img fps hr rwaves
                = transform_size lib F cfg img fps hr rwaves)
         \<and> (\<forall>img2 cu.
               \<not> crop_length cfg \<and> \<not> grayscale cfg
               \<and> rescale_stage lib F cfg img fps hr
                    (if rwave_data_only cfg then Some (calc_rwave_data F rwaves) else None)
                  = Inr (img2, cu)
               \<longrightarrow> transform_stages lib F (cfg\<lparr> crop_sides := True \<rparr>) img fps hr rwaves
                     = length_stages lib F cfg
                         (img2\<lparr> frames := map (astype_u8 lib) (frames img2) \<rparr>) fps rwaves
                         (if rwave_data_only cfg then Some (calc_rwave_data F rwaves) else None) cu
                   \<and> transform_stages lib F (cfg\<lparr> crop_sides := False \<rparr>) img fps hr rwaves
                     = length_stages lib F cfg img2 fps rwaves
                         (if rwave_data_only cfg then Some (calc_rwave_data F rwaves) else None) cu)"
proof (intro conjI)
  obtain img' where r: "t_crop lib cfg img = Inr img'"
    using assms by (simp add: t_crop_def Let_def)
  have sp: "height img' = height img \<and> width img' = width img \<and> channels img' = channels img"
    using r by (rule t_crop_spatial)
  show "\<not> crop_length cfg \<longrightarrow>
      t_crop lib cfg img = Inr (img\<lparr> frames := map (astype_u8 lib) (frames img) \<rparr>)"
    using assms by (simp add: t_crop_full)
  show "t_crop lib (cfg\<lparr> crop_sides := b \<rparr>) img = t_crop lib cfg img"
    by (rule t_crop_ignores_crop_sides)
  show "\<exists>img'. t_crop lib cfg img = Inr img' \<and> height img' = height img
                \<and> width img' = width img \<and> channels img' = channels img"
    using r sp by blast
  show "crop_length cfg \<longrightarrow>
              transform_size lib F (cfg\<lparr> crop_sides := b \<rparr>) img fps hr rwaves
                = transform_size lib F cfg img fps hr rwaves"
    by (rule impI) (rule transform_size_ignores_crop_sides)
  let ?rw = "if rwave_data_only cfg then Some (calc_rwave_data F rwaves) else None"
  show "\<forall>img2 cu.
               \<not> crop_length cfg \<and> \<not> grayscale cfg
               \<and> rescale_stage lib F cfg img fps hr ?rw = Inr (img2, cu)
               \<longrightarrow> transform_stages lib F (cfg\<lparr> crop_sides := True \<rparr>) img fps hr rwaves
                     = length_stages lib F cfg
                         (img2\<lparr> frames := map (astype_u8 lib) (frames img2) \<rparr>) fps rwaves ?rw cu
                   \<and> transform_stages lib F (cfg\<lparr> crop_sides := False \<rparr>) img fps hr rwaves
                     = length_stages lib F cfg img2 fps rwaves ?rw cu"
  proof (intro allI impI)
    fix img2 cu
    assume h: "\<not> crop_length cfg \<and> \<not> grayscale cfg
               \<and> rescale_stage lib F cfg img fps hr ?rw = Inr (img2, cu)"
    then have h1: "\<not> crop_length cfg" and h2: "\<not> grayscale cfg"
      and h3: "rescale_stage lib F cfg img fps hr ?rw = Inr (img2, cu)"
      by blast+
    show "transform_stages lib F (cfg\<lparr> crop_sides := True \<rparr>) img fps hr rwaves
                     = length_stages lib F cfg
                         (img2\<lparr> frames := map (astype_u8 lib) (frames img2) \<rparr>) fps rwaves ?rw cu
                   \<and> transform_stages lib F (cfg\<lparr> crop_sides := False \<rparr>) img fps hr rwaves
                     = length_stages lib F cfg img2 fps rwaves ?rw cu"
      using transform_stages_crop_sides [OF h1 h2 assms refl h3] by (rule conjI)
  qed
qed

theorem C10_no_length_crop_witness:
  "transform_size example_lib binary64 (example_cfg\<lparr> crop_sides := True \<rparr>)
       (example_video [10, 300] 1) 15 60 []
     = Some (Inr (example_video [10, 44] 1))
   \<and> transform_size example_lib binary64 (example_cfg\<lparr> crop_sides := False \<rparr>)
       (example_video [10, 300] 1) 15 60 []
     = Some (Inr (example_video [10, 300] 1))"
proof -
  let ?v = "example_video [10, 300] 1"
  let ?rw = "if rwave_data_only example_cfg then Some (calc_rwave_data binary64 []) else None"
  have c: "channels ?v = Some 1" by (simp add: example_video_def)
  have h: "\<not> crop_length example_cfg \<and> \<not> grayscale example_cfg
           \<and> rescale_stage example_lib binary64 example_cfg ?v 15 60 ?rw = Inr (?v, None)"
    by code_simp
  have l1: "length_stages example_lib binary64 example_cfg
              (?v\<lparr> frames := map (astype_u8 example_lib) (frames ?v) \<rparr>) 15 [] ?rw None
            = Some (Inr (example_video [10, 44] 1))"
    by code_simp
  have l2: "length_stages example_lib binary64 example_cfg ?v 15 [] ?rw None = Some (Inr ?v)"
    by code_simp
  have k1: "shape_check (example_cfg\<lparr> crop_sides := True \<rparr>) (example_video [10, 44] 1)
              = Inr (example_video [10, 44] 1)"
    by code_simp
  have k2: "shape_check (example_cfg\<lparr> crop_sides := False \<rparr>) ?v = Inr ?v"
    by code_simp
  note T = C10_no_length_crop [OF c, where cfg = example_cfg and lib = example_lib
      and F = binary64 and fps = 15 and hr = 60 and rwaves = "[]" and b = True]
  note E = T [THEN conjunct2, THEN conjunct2, THEN conjunct2, THEN conjunct2,
      THEN spec, THEN spec, THEN mp, OF h]
  have s1: "transform_stages example_lib binary64 (example_cfg\<lparr> crop_sides := True \<rparr>) ?v 15 60 []
              = Some (Inr (example_video [10, 44] 1))"
    using E [THEN conjunct1] unfolding l1 .
  have s2: "transform_stages example_lib binary64 (example_cfg\<lparr> crop_sides := False \<rparr>) ?v 15 60 []
              = Some (Inr ?v)"
    using E [THEN conjunct2] unfolding l2 .
  show ?thesis
    unfolding transform_size_def s1 s2 using k1 k2 by simp
qed

text \<open>
  The new length is the ceiling of a float product: for 5 frames at 10 frames per second,
  a heart rate of 140 and a target of 6 frames per heartbeat the product is just above 7
  and the new length is 8.
\<close>

lemma new_length_of_rounding:
  "map_sum id fst (new_length_of binary64 (example_cfg\<lparr> rescale_fphb := True, target_fphb := 6 \<rparr>)
                      5 10 140 None)
     = Inr 8"
  by code_simp

lemma t_crop_no_assert: "t_crop lib cfg img \<noteq> Inl AssertionError"
  by (simp add: t_crop_def Let_def split: option.splits)

lemma crop_stage_no_assert: "crop_stage lib cfg img \<noteq> Inl AssertionError"
  by (simp add: crop_stage_def t_crop_no_assert)

lemma rwave_window_no_assert: "rwave_window len fphb s0 e0 \<noteq> Inl AssertionError"
  by (simp add: rwave_window_shifted Let_def)

lemma rwave_frame_no_assert: "rwave_frame F x fps \<noteq> Inl AssertionError"
  by (simp add: rwave_frame_def to_int_def split: option.splits)

lemma t_crop_rwave_no_assert: "t_crop_rwave F cfg video rwaves ix fps \<noteq> Inl AssertionError"
proof -
  have w: "\<And>s0 e0. (case rwave_window (int (length (frames video))) (target_fphb cfg) s0 e0 of
                       Inl e \<Rightarrow> Inl e
                     | Inr (s, e) \<Rightarrow> Inr (video\<lparr> frames := py_slice (frames video) s e \<rparr>))
                   \<noteq> Inl AssertionError"
    using rwave_window_no_assert by (auto split: sum.splits prod.splits)
  show ?thesis
    unfolding t_crop_rwave_def
    using w rwave_frame_no_assert [of F]
    by (auto split: sum.splits)
qed

lemma rwave_stage_no_assert: "rwave_stage F cfg img fps rwaves rw cu \<noteq> Inl AssertionError"
  by (simp add: rwave_stage_def py_div_def t_crop_rwave_no_assert
      split: option.splits prod.splits sum.splits)

lemma t_pad_length_no_assert: "t_pad_length lib cfg img \<noteq> Inl AssertionError"
  by (simp add: t_pad_length_def Let_def split: option.splits)

lemma shape_check_no_assert: "shape_check cfg img \<noteq> Inl AssertionError"
  by (simp add: shape_check_def split: option.splits)

lemma length_stages_no_assert:
  "length_stages lib F cfg img fps rwaves rw cu \<noteq> Some (Inl AssertionError)"
proof (cases "rwave_stage F cfg img fps rwaves rw cu")
  case (Inl e)
  then have "e \<noteq> AssertionError" using rwave_stage_no_assert [of F cfg img fps rwaves rw cu] by auto
  then show ?thesis using Inl by (simp add: length_stages_def)
next
  case rwv: (Inr img4)
  show ?thesis
  proof (cases "if loop_length cfg then t_loop_length lib cfg img4 else Some img4")
    case None
    then show ?thesis using rwv by (simp add: length_stages_def)
  next
    case (Some img5)
    then have "length_stages lib F cfg img fps rwaves rw cu
        = Some (if pad_length cfg then t_pad_length lib cfg img5 else Inr img5)"
      using rwv by (simp add: length_stages_def)
    then show ?thesis using t_pad_length_no_assert [of lib cfg img5] by simp
  qed
qed

text \<open>
  Claim C4, amended. Once the rescaling stage has raised nothing, \<open>transform_size\<close>
  fails an assertion exactly when \<open>loop_length\<close>, \<open>crop_length\<close> and
  \<open>rwave_data_only\<close> are all three enabled: the assertion of line 160 is on the
  conjunction of the three flags, and no later stage asserts.
\<close>

theorem C4_assertion_needs_three_flags:
  assumes "rescale_stage lib F cfg (if grayscale cfg then t_grayscale_mean lib img else img) fps hr
             (if rwave_data_only cfg then Some (calc_rwave_data F rwaves) else None) = Inr r"
  shows "transform_size lib F cfg img fps hr rwaves = Some (Inl AssertionError)
           \<longleftrightarrow> loop_length cfg \<and> crop_length cfg \<and> rwave_data_only cfg"
proof (cases "loop_length cfg \<and> crop_length cfg \<and> rwave_data_only cfg")
  case True
  then show ?thesis
    using assms by (cases r) (simp add: transform_size_def transform_stages_def Let_def)
next
  case False
  obtain img2 curr where r: "r = (img2, curr)" by (cases r)
  let ?rw = "if rwave_data_only cfg then Some (calc_rwave_data F rwaves) else None"
  have st: "transform_stages lib F cfg img fps hr rwaves =
      (case crop_stage lib cfg img2 of
         Inl e \<Rightarrow> Some (Inl e)
       | Inr img3 \<Rightarrow> length_stages lib F cfg img3 fps rwaves ?rw curr)"
    unfolding transform_stages_def Let_def assms [unfolded r] if_not_P [OF False] by simp
  have "transform_size lib F cfg img fps hr rwaves \<noteq> Some (Inl AssertionError)"
  proof (cases "crop_stage lib cfg img2")
    case (Inl e)
    then have "e \<noteq> AssertionError" using crop_stage_no_assert [of lib cfg img2] by auto
    then show ?thesis using Inl st by (simp add: transform_size_def)
  next
    case c: (Inr img3)
    then have st3: "transform_stages lib F cfg img fps hr rwaves
                      = length_stages lib F cfg img3 fps rwaves ?rw curr"
      using st by simp
    show ?thesis
    proof (cases "length_stages lib F cfg img3 fps rwaves ?rw curr")
      case None
      then show ?thesis using st3 by (simp add: transform_size_def)
    next
      case (Some res)
      show ?thesis
      proof (cases res)
        case (Inl e)
        then have "e \<noteq> AssertionError"
          using Some length_stages_no_assert [of lib F cfg img3 fps rwaves ?rw curr] by auto
        then show ?thesis using Inl Some st3 by (simp add: transform_size_def)
      next
        case (Inr img6)
        then show ?thesis using Some st3 shape_check_no_assert [of cfg img6]
          by (simp add: transform_size_def)
      qed
    qed
  qed
  then show ?thesis using False by simp
qed

theorem C4_assertion_needs_three_flags_witness:
  "transform_size example_lib binary64
     (example_cfg\<lparr> rwave_data_only := True, rescale_fphb := True, crop_length := True,
                    loop_length := True, target_fphb := 2 \<rparr>)
     (example_video [10, 20, 30, 40] 1) 4 60 [0, 1000]
   = Some (Inl AssertionError)"
proof -
  let ?cfg = "example_cfg\<lparr> rwave_data_only := True, rescale_fphb := True, crop_length := True,
                    loop_length := True, target_fphb := 2 \<rparr>"
  have h: "rescale_stage example_lib binary64 ?cfg
             (if grayscale ?cfg then t_grayscale_mean example_lib (example_video [10, 20, 30, 40] 1)
              else example_video [10, 20, 30, 40] 1) 4 60
             (if rwave_data_only ?cfg then Some (calc_rwave_data binary64 [0, 1000]) else None)
           = Inr (example_video [10, 30] 1, Some 4)"
    by code_simp
  show ?thesis
    using C4_assertion_needs_three_flags [OF h] by simp
qed

text \<open>
  Claim C4 as stated: with \<open>crop_length\<close> and \<open>rwave_data_only\<close> both enabled
  (and \<open>loop_length\<close> disabled) no assertion fails; here the video is returned.
\<close>

theorem C4_counterexample:
  "transform_size example_lib binary64
     (example_cfg\<lparr> rwave_data_only := True, rescale_fphb := True, crop_length := True,
                    target_fphb := 2 \<rparr>)
     (example_video [10, 20, 30, 40] 1) 4 60 [0, 1000]
   = Some (Inr (example_video [10, 30] 1))"
  by code_simp

lemma t_crop_rwave_channels:
  assumes "t_crop_rwave F cfg video rwaves ix fps = Inr v"
  shows "channels v = channels video"
  using assms
  by (auto simp: t_crop_rwave_def split: if_splits sum.splits prod.splits)

lemma rwave_stage_channels:
  assumes "rwave_stage F cfg img fps rwaves rw cu = Inr v"
  shows "channels v = channels img"
  using assms
  by (auto simp: rwave_stage_def split: option.splits prod.splits sum.splits
      dest: t_crop_rwave_channels)

lemma t_loop_length_channels:
  assumes "t_loop_length lib cfg img = Some v"
  shows "channels v = channels img"
  using assms by (auto simp: t_loop_length_def split: option.splits)

lemma t_pad_length_channels:
  assumes "t_pad_length lib cfg img = Inr v"
  shows "channels v = channels img"
  using assms by (auto simp: t_pad_length_def Let_def split: option.splits if_splits)

lemma crop_stage_channels:
  assumes "crop_stage lib cfg img = Inr v"
  shows "channels v = channels img"
  using assms t_crop_spatial [of lib cfg img v] by (auto simp: crop_stage_def split: if_splits)

lemma length_stages_channels:
  assumes "length_stages lib F cfg img fps rwaves rw cu = Some (Inr v)"
  shows "channels v = channels img"
proof -
  obtain img4 where i4: "rwave_stage F cfg img fps rwaves rw cu = Inr img4"
    using assms by (cases "rwave_stage F cfg img fps rwaves rw cu") (simp_all add: length_stages_def)
  have c4: "channels img4 = channels img" using i4 by (rule rwave_stage_channels)
  have s4: "(case (if loop_length cfg then t_loop_length lib cfg img4 else Some img4) of
               None \<Rightarrow> None
             | Some img5 \<Rightarrow> Some (if pad_length cfg then t_pad_length lib cfg img5 else Inr img5))
            = Some (Inr v)"
    using assms i4 by (simp add: length_stages_def)
  obtain img5 where i5: "(if loop_length cfg then t_loop_length lib cfg img4 else Some img4) = Some img5"
    using s4 by (cases "if loop_length cfg then t_loop_length lib cfg img4 else Some img4") simp_all
  have c5: "channels img5 = channels img4"
    using i5 t_loop_length_channels [of lib cfg img4 img5] by (auto split: if_splits)
  have i6: "(if pad_length cfg then t_pad_length lib cfg img5 else Inr img5) = Inr v"
    using s4 unfolding i5 by simp
  have c6: "channels v = channels img5"
    using i6 t_pad_length_channels [of lib cfg img5 v] by (auto split: if_splits)
  show ?thesis using c4 c5 c6 by simp
qed

lemma transform_stages_channels:
  assumes "transform_stages lib F cfg img fps hr rwaves = Some (Inr v)"
  shows "channels v = (if grayscale cfg then None else channels img)"
proof -
  let ?img1 = "if grayscale cfg then t_grayscale_mean lib img else img"
  let ?rw = "if rwave_data_only cfg then Some (calc_rwave_data F rwaves) else None"
  have c1: "channels ?img1 = (if grayscale cfg then None else channels img)"
    by (simp add: t_grayscale_mean_def)
  obtain img2 cu where rs: "rescale_stage lib F cfg ?img1 fps hr ?rw = Inr (img2, cu)"
    using assms by (auto simp: transform_stages_def Let_def split: sum.splits)
  have c2: "channels img2 = channels ?img1" using rs by (rule rescale_stage_channels)
  have na: "\<not> (loop_length cfg \<and> crop_length cfg \<and> rwave_data_only cfg)"
    using assms rs by (auto simp: transform_stages_def Let_def)
  have st: "transform_stages lib F cfg img fps hr rwaves =
      (case crop_stage lib cfg img2 of
         Inl e \<Rightarrow> Some (Inl e)
       | Inr img3 \<Rightarrow> length_stages lib F cfg img3 fps rwaves ?rw cu)"
    unfolding transform_stages_def Let_def rs if_not_P [OF na] by simp
  obtain img3 where i3: "crop_stage lib cfg img2 = Inr img3"
    using assms unfolding st by (cases "crop_stage lib cfg img2") simp_all
  have c3: "channels img3 = channels img2" using i3 by (rule crop_stage_channels)
  have "length_stages lib F cfg img3 fps rwaves ?rw cu = Some (Inr v)"
    using assms unfolding st i3 by simp
  then have c4: "channels v = channels img3" by (rule length_stages_channels)
  show ?thesis using c1 c2 c3 c4 by simp
qed

text \<open>
  With grayscale conversion disabled the final check does what the documentation says:
  the channel count of the transformed video is that of the input, the shape error is
  raised exactly when its shape is not the target shape, and the video is returned
  otherwise.
\<close>

lemma transform_size_shape_check:
  assumes "\<not> grayscale cfg" and "channels img = Some c"
    and "transform_stages lib F cfg img fps hr rwaves = Some (Inr v)"
  shows "(transform_size lib F cfg img fps hr rwaves = Some (Inl ShapeValueError)
            \<longleftrightarrow> map int (shape v)
                  \<noteq> [target_length cfg, target_height cfg, target_width cfg, int c])
         \<and> (map int (shape v) = [target_length cfg, target_height cfg, target_width cfg, int c]
              \<longrightarrow> transform_size lib F cfg img fps hr rwaves = Some (Inr v))"
proof -
  have "channels v = Some c"
    using transform_stages_channels [OF assms(3)] assms(1,2) by simp
  then show ?thesis
    using assms(3) by (simp add: transform_size_def shape_check_def)
qed

text \<open>
  With grayscale conversion enabled \<open>transform_size\<close> never returns a video: a video
  that reaches the final check has rank 3.
\<close>

lemma transform_size_grayscale:
  assumes "grayscale cfg"
  shows "transform_size lib F cfg img fps hr rwaves \<noteq> Some (Inr v)"
proof -
  have k: "shape_check cfg v' = Inl IndexError"
    if "transform_stages lib F cfg img fps hr rwaves = Some (Inr v')" for v'
    using transform_stages_channels [OF that] assms by (simp add: shape_check_def)
  show ?thesis
  proof (cases "transform_stages lib F cfg img fps hr rwaves")
    case None
    then show ?thesis by (simp add: transform_size_def)
  next
    case (Some res)
    then show ?thesis using k by (cases res) (simp_all add: transform_size_def)
  qed
qed

text \<open>
  Claim C1. A video of shape (2, 1, 1, 3) with grayscale conversion enabled and the
  target shape (2, 1, 1): \<open>t_grayscale_mean\<close> drops the channel axis, the transformed
  video has the shape (2, 1, 1), which is not (2, 1, 1, 3), and where the claim has the
  shape error raised, \<open>img.shape[3]\<close> raises IndexError.
\<close>

theorem C1_grayscale_index_error:
  "transform_stages example_lib binary64 (example_cfg\<lparr> grayscale := True \<rparr>)
       (example_video [10, 20] 3) 15 60 []
     = Some (Inr \<lparr> frames = [10, 20], height = 1, width = 1, channels = None \<rparr>)
   \<and> map int (shape \<lparr> frames = [10, 20 :: int], height = 1, width = 1, channels = None \<rparr>)
       \<noteq> [target_length example_cfg, target_height example_cfg, target_width example_cfg, 3]
   \<and> transform_size example_lib binary64 (example_cfg\<lparr> grayscale := True \<rparr>)
       (example_video [10, 20] 3) 15 60 []
     = Some (Inl IndexError)"
  by code_simp

subsection \<open>t\_zoom\<close>

text \<open>
  Claim C8, amended. A drawn zoom factor below 0 is replaced by 1 and \<open>t_zoom\<close> returns
  its input; so it does for a factor of exactly 1, and for a factor whose rescaled first
  frame has the height and width of the input.
\<close>

theorem C8_zoom_noop:
  "(zoom_factor0 < 0 \<longrightarrow> t_zoom rescale cfg zoom_factor0 img = Inr img)
   \<and> (zoom_factor0 = 1 \<longrightarrow> t_zoom rescale cfg zoom_factor0 img = Inr img)
   \<and> (\<forall>frame rest. frames img = frame # rest
          \<and> zoom_h (rescale frame zoom_factor0 (black_val cfg)) = height img
          \<and> zoom_w (rescale frame zoom_factor0 (black_val cfg)) = width img
          \<longrightarrow> t_zoom rescale cfg zoom_factor0 img = Inr img)"
proof -
  have empty: "frames img = [] \<Longrightarrow> img\<lparr> frames := [] \<rparr> = img"
    by (cases img) simp
  have a: "zoom_factor0 < 0 \<longrightarrow> t_zoom rescale cfg zoom_factor0 img = Inr img"
    by (cases "frames img") (simp_all add: t_zoom_def Let_def empty)
  have b: "zoom_factor0 = 1 \<longrightarrow> t_zoom rescale cfg zoom_factor0 img = Inr img"
    by (cases "frames img") (simp_all add: t_zoom_def Let_def empty)
  have c: "t_zoom rescale cfg zoom_factor0 img = Inr img"
    if "frames img = frame # rest"
      and "zoom_h (rescale frame zoom_factor0 (black_val cfg)) = height img"
      and "zoom_w (rescale frame zoom_factor0 (black_val cfg)) = width img"
    for frame rest
  proof (cases "zoom_factor0 < 0")
    case True
    then show ?thesis using a by simp
  next
    case False
    then show ?thesis using that by (simp add: t_zoom_def Let_def)
  qed
  show ?thesis using a b c by blast
qed

theorem C8_zoom_noop_witness:
  "t_zoom example_rescale example_cfg (- 1 / 2) example_pvideo = Inr example_pvideo
   \<and> t_zoom example_rescale example_cfg 1 example_pvideo = Inr example_pvideo
   \<and> t_zoom example_rescale example_cfg (11 / 10) example_pvideo = Inr example_pvideo"
proof -
  have f: "frames example_pvideo = [[[1], [2]], [[3], [4]]] # []"
    by (simp add: example_pvideo_def)
  have zh: "zoom_h (example_rescale [[[1], [2]], [[3], [4]]] (11 / 10) (black_val example_cfg))
              = height example_pvideo"
    by code_simp
  have zw: "zoom_w (example_rescale [[[1], [2]], [[3], [4]]] (11 / 10) (black_val example_cfg))
              = width example_pvideo"
    by code_simp
  show ?thesis
    using C8_zoom_noop [of "- 1 / 2" example_rescale example_cfg example_pvideo]
      C8_zoom_noop [of 1 example_rescale example_cfg example_pvideo]
      C8_zoom_noop [of "11 / 10" example_rescale example_cfg example_pvideo] f zh zw
    by simp
qed

text \<open>
  Claim C8 as stated: a factor of exactly 0 is "less than or equal to 0", but the guard is
  \<open>zoom_factor < 0\<close>: the factor stays 0, the frame is rescaled by 0 and pasted into
  a black video, and the input is not returned.
\<close>

theorem C8_counterexample:
  "t_zoom example_rescale example_cfg 0 example_pvideo
     = Inr \<lparr> frames = [[[[1], [0]], [[0], [0]]]], height = 2, width = 2, channels = Some 1 \<rparr>
   \<and> t_zoom example_rescale example_cfg 0 example_pvideo \<noteq> Inr example_pvideo"
  by code_simp

subsection \<open>t\_local\_blackout and t\_local\_intensity\<close>

lemma map_rect_length: "length (map_rect f h w h0 h1 w0 w1 frame) = length frame"
  by (simp add: map_rect_def)

lemma map_rect_row_lengths:
  "map length (map_rect f h w h0 h1 w0 w1 frame) = map length frame"
  by (auto simp: map_rect_def list_eq_iff_nth_eq nth_enumerate_eq)

lemma map_rect_outside:
  assumes "r < length frame" and "c < length (frame ! r)"
    and "\<not> (in_slice h h0 h1 r \<and> in_slice w w0 w1 c)"
  shows "map_rect f h w h0 h1 w0 w1 frame ! r ! c = frame ! r ! c"
  using assms by (auto simp: map_rect_def nth_enumerate_eq)

lemma map_rect_inside:
  assumes "r < length frame" and "c < length (frame ! r)"
    and "in_slice h h0 h1 r" and "in_slice w w0 w1 c"
  shows "map_rect f h w h0 h1 w0 w1 frame ! r ! c = map f (frame ! r ! c)"
  using assms by (auto simp: map_rect_def nth_enumerate_eq)

lemma map_rect_same_outside:
  assumes "v' = v\<lparr> frames := map (map_rect f (height v) (width v) h0 h1 w0 w1) (frames v) \<rparr>"
  shows "same_outside v v' h0 h1 w0 w1" and "rect_written f v v' h0 h1 w0 w1"
proof -
  show "same_outside v v' h0 h1 w0 w1"
    unfolding same_outside_def outside_rect_def assms
    by (auto simp: shape_def map_rect_outside map_rect_row_lengths)
  show "rect_written f v v' h0 h1 w0 w1"
    unfolding rect_written_def outside_rect_def assms
    by (auto simp: map_rect_inside)
qed

text \<open>
  Claim C9, amended. \<open>t_local_blackout\<close> and \<open>t_local_intensity\<close> work on the
  caller's array in place: inside the drawn rectangle every value of the caller's array is
  overwritten, with the black value or with the shifted value. \<open>t_local_blackout\<close> returns
  the array it was given, and \<open>t_local_intensity\<close> a new array, the clipped copy of the
  modified input. Both leave every other array alone, keep the shape of the input and
  change no pixel outside the rectangle.
\<close>

theorem C9_local_augmentations_in_place:
  assumes "a < next_free h"
  shows "(\<forall>h' r. t_local_blackout cfg cast d h a = Inr (h', r) \<longrightarrow>
            r = a \<and> next_free h' = next_free h
            \<and> (\<forall>b. b \<noteq> a \<longrightarrow> arrays h' b = arrays h b)
            \<and> same_outside (arrays h a) (arrays h' a)
                 (bo_pos_h d) (bo_pos_h d + py_int \<bar>bo_normal_h d\<bar>)
                 (bo_pos_w d) (bo_pos_w d + py_int \<bar>bo_normal_w d\<bar>)
            \<and> rect_written (\<lambda>x. cast (black_val cfg)) (arrays h a) (arrays h' a)
                 (bo_pos_h d) (bo_pos_h d + py_int \<bar>bo_normal_h d\<bar>)
                 (bo_pos_w d) (bo_pos_w d + py_int \<bar>bo_normal_w d\<bar>))
         \<and> (\<forall>h' r. t_local_intensity cfg shift e h a = Inr (h', r) \<longrightarrow>
            r = next_free h \<and> next_free h' = Suc (next_free h)
            \<and> (\<forall>b. b \<noteq> a \<and> b \<noteq> r \<longrightarrow> arrays h' b = arrays h b)
            \<and> same_outside (arrays h a) (arrays h' a)
                 (ints_pos_h e) (ints_pos_h e + py_int \<bar>ints_normal_h e\<bar>)
                 (ints_pos_w e) (ints_pos_w e + py_int \<bar>ints_normal_w e\<bar>)
            \<and> rect_written (\<lambda>x. shift x (ints_val e)) (arrays h a) (arrays h' a)
                 (ints_pos_h e) (ints_pos_h e + py_int \<bar>ints_normal_h e\<bar>)
                 (ints_pos_w e) (ints_pos_w e + py_int \<bar>ints_normal_w e\<bar>)
            \<and> arrays h' r = np_clip (black_val cfg) (white_val cfg) (arrays h' a))"
proof (intro conjI allI impI)
  fix h' r
  assume t: "t_local_blackout cfg cast d h a = Inr (h', r)"
  let ?v = "arrays h a"
  let ?v' = "?v\<lparr> frames := map (map_rect (\<lambda>x. cast (black_val cfg)) (height ?v) (width ?v)
               (bo_pos_h d) (bo_pos_h d + py_int \<bar>bo_normal_h d\<bar>)
               (bo_pos_w d) (bo_pos_w d + py_int \<bar>bo_normal_w d\<bar>)) (frames ?v) \<rparr>"
  have eq: "h' = h\<lparr> arrays := (arrays h)(a := ?v') \<rparr> \<and> r = a"
    using t by (auto simp: t_local_blackout_def Let_def split: if_splits option.splits)
  have at_a: "arrays h' a = ?v'" using eq by simp
  show "r = a" using eq by simp
  show "next_free h' = next_free h" using eq by simp
  show "b \<noteq> a \<Longrightarrow> arrays h' b = arrays h b" for b using eq by simp
  show "same_outside (arrays h a) (arrays h' a)
                 (bo_pos_h d) (bo_pos_h d + py_int \<bar>bo_normal_h d\<bar>)
                 (bo_pos_w d) (bo_pos_w d + py_int \<bar>bo_normal_w d\<bar>)"
    unfolding at_a by (rule map_rect_same_outside(1)) (rule refl)
  show "rect_written (\<lambda>x. cast (black_val cfg)) (arrays h a) (arrays h' a)
                 (bo_pos_h d) (bo_pos_h d + py_int \<bar>bo_normal_h d\<bar>)
                 (bo_pos_w d) (bo_pos_w d + py_int \<bar>bo_normal_w d\<bar>)"
    unfolding at_a by (rule map_rect_same_outside(2)) (rule refl)
next
  fix h' r
  assume t: "t_local_intensity cfg shift e h a = Inr (h', r)"
  let ?v = "arrays h a"
  let ?v' = "?v\<lparr> frames := map (map_rect (\<lambda>x. shift x (ints_val e)) (height ?v) (width ?v)
               (ints_pos_h e) (ints_pos_h e + py_int \<bar>ints_normal_h e\<bar>)
               (ints_pos_w e) (ints_pos_w e + py_int \<bar>ints_normal_w e\<bar>)) (frames ?v) \<rparr>"
  have eq: "(h', r) = alloc (h\<lparr> arrays := (arrays h)(a := ?v') \<rparr>)
                        (np_clip (black_val cfg) (white_val cfg) ?v')"
    using t by (auto simp: t_local_intensity_def Let_def split: if_splits option.splits)
  then have h': "h' = \<lparr> arrays = ((arrays h)(a := ?v'))
                            (next_free h := np_clip (black_val cfg) (white_val cfg) ?v'),
                      next_free = Suc (next_free h) \<rparr>"
    and r: "r = next_free h"
    by (simp_all add: alloc_def)
  have ne: "a \<noteq> next_free h" using assms by simp
  have at_a: "arrays h' a = ?v'" using ne unfolding h' by simp
  show "r = next_free h" by (rule r)
  show "next_free h' = Suc (next_free h)" unfolding h' by simp
  show "b \<noteq> a \<and> b \<noteq> r \<Longrightarrow> arrays h' b = arrays h b" for b unfolding h' r by simp
  show "same_outside (arrays h a) (arrays h' a)
                 (ints_pos_h e) (ints_pos_h e + py_int \<bar>ints_normal_h e\<bar>)
                 (ints_pos_w e) (ints_pos_w e + py_int \<bar>ints_normal_w e\<bar>)"
    unfolding at_a by (rule map_rect_same_outside(1)) (rule refl)
  show "rect_written (\<lambda>x. shift x (ints_val e)) (arrays h a) (arrays h' a)
                 (ints_pos_h e) (ints_pos_h e + py_int \<bar>ints_normal_h e\<bar>)
                 (ints_pos_w e) (ints_pos_w e + py_int \<bar>ints_normal_w e\<bar>)"
    unfolding at_a by (rule map_rect_same_outside(2)) (rule refl)
  show "arrays h' r = np_clip (black_val cfg) (white_val cfg) (arrays h' a)"
    unfolding at_a unfolding h' r by simp
qed

theorem C9_local_augmentations_in_place_witness:
  "returned (t_local_blackout example_cfg (\<lambda>x. x)
               \<lparr> bo_normal_h = 1, bo_normal_w = 1, bo_pos_h = 0, bo_pos_w = 0 \<rparr> example_heap 0)
     = Inr 0
   \<and> returned (t_local_intensity example_cfg (\<lambda>x v. x + v)
               \<lparr> ints_normal_h = 1, ints_normal_w = 1, ints_pos_h = 0, ints_pos_w = 0,
                 ints_val = 300 \<rparr> example_heap 0)
     = Inr 1"
proof -
  let ?d = "\<lparr> bo_normal_h = 1, bo_normal_w = 1, bo_pos_h = 0, bo_pos_w = 0 \<rparr>"
  let ?e = "\<lparr> ints_normal_h = 1, ints_normal_w = 1, ints_pos_h = 0, ints_pos_w = 0,
              ints_val = 300 \<rparr>"
  let ?T = "t_local_blackout example_cfg (\<lambda>x. x) ?d example_heap 0"
  let ?U = "t_local_intensity example_cfg (\<lambda>x v. x + v) ?e example_heap 0"
  have live: "0 < next_free example_heap" by (simp add: example_heap_def)
  have nf: "next_free example_heap = 1" by (simp add: example_heap_def)
  have "\<not> isl ?T" by code_simp
  then have T: "?T = Inr (fst (projr ?T), snd (projr ?T))" by simp
  have "\<not> isl ?U" by code_simp
  then have U: "?U = Inr (fst (projr ?U), snd (projr ?U))" by simp
  note A = C9_local_augmentations_in_place [OF live, where cfg = example_cfg
      and cast = "\<lambda>x. x" and d = ?d and shift = "\<lambda>x v. x + v" and e = ?e]
  have r1: "snd (projr ?T) = 0"
    using A [THEN conjunct1, THEN spec, THEN spec, THEN mp, OF T, THEN conjunct1] .
  have r2: "snd (projr ?U) = next_free example_heap"
    using A [THEN conjunct2, THEN spec, THEN spec, THEN mp, OF U, THEN conjunct1] .
  have "returned ?T = Inr (snd (projr ?T))"
    by (subst T) (simp add: returned_def split: prod.splits)
  moreover have "returned ?U = Inr (snd (projr ?U))"
    by (subst U) (simp add: returned_def split: prod.splits)
  ultimately show ?thesis using r1 r2 nf by simp
qed

text \<open>
  Claim C9 as stated: no operation would mutate the caller's array. After
  \<open>t_local_blackout\<close> the pixel at row 0, column 0 of the caller's array holds the black
  value, and after \<open>t_local_intensity\<close> with a shift of 300 it holds 301.
\<close>

theorem C9_counterexample:
  "arrays example_heap 0
     = \<lparr> frames = [[[[1], [2]], [[3], [4]]]], height = 2, width = 2, channels = Some 1 \<rparr>
   \<and> contents_after (t_local_blackout example_cfg (\<lambda>x. x)
               \<lparr> bo_normal_h = 1, bo_normal_w = 1, bo_pos_h = 0, bo_pos_w = 0 \<rparr> example_heap 0) 0
     = Inr \<lparr> frames = [[[[0], [2]], [[3], [4]]]], height = 2, width = 2, channels = Some 1 \<rparr>
   \<and> contents_after (t_local_intensity example_cfg (\<lambda>x v. x + v)
               \<lparr> ints_normal_h = 1, ints_normal_w = 1, ints_pos_h = 0, ints_pos_w = 0,
                 ints_val = 300 \<rparr> example_heap 0) 0
     = Inr \<lparr> frames = [[[[301], [2]], [[3], [4]]]], height = 2, width = 2, channels = Some 1 \<rparr>"
  by code_simp

end
